theory Spec2Isabelle
  imports Main
begin

section \<open>Pivot tables of a spreadsheet package: pivotTable.go\<close>

text \<open>
  A shallow embedding of \<^verbatim>\<open>pivotTable.go\<close>. Go strings are byte sequences and are
  modelled as \<^typ>\<open>string\<close>; Go's \<^verbatim>\<open>int\<close> is modelled as \<^typ>\<open>int\<close> (every integer of this
  file is a coordinate, an index or a counter far below the 64-bit range). A Go function
  returning \<^verbatim>\<open>(..., error)\<close> returns the same tuple here, the error as an
  \<^typ>\<open>'a option\<close> (\<^term>\<open>None\<close> is \<^verbatim>\<open>nil\<close>).
\<close>

subsection \<open>Errors\<close>

text \<open>
  \<^verbatim>\<open>ErrParameterRequired\<close> and \<^verbatim>\<open>ErrParameterInvalid\<close> are the package's two sentinel
  errors. \<open>ParsingError p e\<close> is
  \<^verbatim>\<open>fmt.Errorf("parameter '<p>' parsing error: %s", e.Error())\<close>, \<open>SheetNotExist s\<close> is
  \<^verbatim>\<open>fmt.Errorf("sheet %s does not exist", s)\<close>, and \<open>CollabError m\<close> is an error raised by a
  collaborator outside this file (cell lookup, worksheet reader).
\<close>

datatype error =
    ErrParameterRequired
  | ErrParameterInvalid
  | ParsingError string error
  | SheetNotExist string
  | CollabError string

subsection \<open>The standard library's string functions\<close>

text \<open>\<^verbatim>\<open>strings.Split(s, sep)\<close> for a one-byte separator: \<open>n\<close> separators give \<open>n + 1\<close> pieces.\<close>

fun Split :: "string \<Rightarrow> char \<Rightarrow> string list" where
  "Split [] sep = [[]]"
| "Split (c # cs) sep =
     (if c = sep then [] # Split cs sep
      else (case Split cs sep of [] \<Rightarrow> [[c]] | p # ps \<Rightarrow> (c # p) # ps))"

text \<open>\<^verbatim>\<open>strings.ReplaceAll(s, "$", "")\<close>: every occurrence of the byte is dropped.\<close>

definition RemoveAll :: "char \<Rightarrow> string \<Rightarrow> string" where
  "RemoveAll ch s = filter (\<lambda>x. x \<noteq> ch) s"

text \<open>\<^verbatim>\<open>strings.Contains(s, substr)\<close>.\<close>

fun HasPrefix :: "string \<Rightarrow> string \<Rightarrow> bool" where
  "HasPrefix s [] = True"
| "HasPrefix [] (p # ps) = False"
| "HasPrefix (c # cs) (p # ps) = (c = p \<and> HasPrefix cs ps)"

fun Contains :: "string \<Rightarrow> string \<Rightarrow> bool" where
  "Contains [] sub = (sub = [])"
| "Contains (c # cs) sub = (HasPrefix (c # cs) sub \<or> Contains cs sub)"

text \<open>\<^verbatim>\<open>strconv.Itoa\<close> on a natural number, and on an \<^typ>\<open>int\<close>.\<close>

definition digit :: "nat \<Rightarrow> char" where
  "digit d = ''0123456789'' ! d"

function natToString :: "nat \<Rightarrow> string" where
  "natToString n = (if n < 10 then [digit n] else natToString (n div 10) @ [digit (n mod 10)])"
  by pat_completeness auto
termination
  by (relation "measure id") auto

definition Itoa :: "int \<Rightarrow> string" where
  "Itoa i = (if i < 0 then CHR ''-'' # natToString (nat (- i)) else natToString (nat i))"

text \<open>\<^verbatim>\<open>strings.TrimPrefix\<close>, and \<^verbatim>\<open>strings.ReplaceAll(s, "..", new)\<close>.\<close>

definition TrimPrefix :: "string \<Rightarrow> string \<Rightarrow> string" where
  "TrimPrefix s p = (if HasPrefix s p then drop (length p) s else s)"

fun ReplaceDotDot :: "string \<Rightarrow> string \<Rightarrow> string" where
  "ReplaceDotDot (a # b # cs) new =
     (if a = CHR ''.'' \<and> b = CHR ''.'' then new @ ReplaceDotDot cs new
      else a # ReplaceDotDot (b # cs) new)"
| "ReplaceDotDot cs new = cs"

text \<open>
  \<^verbatim>\<open>strings.EqualFold(s, t)\<close>: equality of the two UTF-8 strings under simple Unicode case
  folding, compared rune by rune. Every caller in this file passes a member of a fixed
  enumeration of ASCII letters as \<open>s\<close>, and the model is for such an \<open>s\<close>. Two ASCII bytes
  match when they are equal or the upper and lower case of one letter. The only
  non-ASCII runes whose folding orbit holds an ASCII letter are U+017F (long s, bytes
  C5 BF), which matches \<open>s\<close> and \<open>S\<close>, and U+212A (the Kelvin sign, bytes E2 84 AA), which
  matches \<open>k\<close> and \<open>K\<close>; any other rune of \<open>t\<close>, well-formed or not, matches no ASCII byte.
\<close>

definition asciiFoldEq :: "char \<Rightarrow> char \<Rightarrow> bool" where
  "asciiFoldEq sr tr =
     (let a = min (of_char sr) (of_char tr); b = max (of_char sr) (of_char tr) :: nat
      in a = b \<or> (65 \<le> a \<and> a \<le> 90 \<and> b = a + 32))"

fun EqualFold :: "string \<Rightarrow> string \<Rightarrow> bool" where
  "EqualFold [] t = (t = [])"
| "EqualFold (sr # s) [] = False"
| "EqualFold (sr # s) (b # t) =
     (if (of_char b :: nat) < 128 then asciiFoldEq sr b \<and> EqualFold s t
      else
        (case t of
           [] \<Rightarrow> False
         | b2 # t2 \<Rightarrow>
             if b = CHR 0xC5 \<and> b2 = CHR 0xBF
             then (sr = CHR ''s'' \<or> sr = CHR ''S'') \<and> EqualFold s t2
             else
               (case t2 of
                  [] \<Rightarrow> False
                | b3 # t3 \<Rightarrow>
                    b = CHR 0xE2 \<and> b2 = CHR 0x84 \<and> b3 = CHR 0xAA \<and>
                    (sr = CHR ''k'' \<or> sr = CHR ''K'') \<and> EqualFold s t3)))"

subsection \<open>Collaborators outside this file\<close>

text \<open>
  The file calls functions of the package that live in other files. They are taken as
  parameters, gathered in one record, so that every theorem holds for whatever they
  compute:
  \<^item> \<open>areaRefToCoordinates\<close> parses an address such as \<^verbatim>\<open>A1:E31\<close> into the coordinates
    \<open>(x1, y1, x2, y2)\<close> of its two cells, or fails;
  \<^item> \<open>CoordinatesToCellName col row\<close> names a cell (every caller drops its error);
  \<^item> \<open>getDefinedNameRefTo name sheet\<close> resolves a defined name scoped to a sheet, the empty
    string when there is none;
  \<^item> \<open>GetCellValue sheet cell\<close> reads one cell;
  \<^item> \<open>workSheetReader sheet\<close> fails when the sheet cannot be read;
  \<^item> \<open>getSheetXMLPath sheet\<close> is the storage path of a sheet, \<open>(path, ok)\<close>;
  \<^item> \<open>getWorkbookRelsPath\<close> is the path of the workbook's relationship part;
  \<^item> \<open>pivotTableVersion\<close> is a constant of the package.
  The four that read the document read parts of it that this file never writes (defined
  names, the cell grid, the sheet list).
\<close>

record Collab =
  areaRefToCoordinates :: "string \<Rightarrow> error + (int \<times> int \<times> int \<times> int)"
  CoordinatesToCellName :: "int \<Rightarrow> int \<Rightarrow> string"
  getDefinedNameRefTo :: "string \<Rightarrow> string \<Rightarrow> string"
  GetCellValue :: "string \<Rightarrow> string \<Rightarrow> error + string"
  workSheetReader :: "string \<Rightarrow> error option"
  getSheetXMLPath :: "string \<Rightarrow> string \<times> bool"
  getWorkbookRelsPath :: string
  pivotTableVersion :: int

subsection \<open>adjustRange\<close>

text \<open>
  \<^verbatim>\<open>adjustRange\<close> returns \<open>(sheet, coordinates, err)\<close>. The two swaps of the source are
  two independent conditional exchanges, one per axis.
\<close>

definition adjustRange :: "Collab \<Rightarrow> string \<Rightarrow> string \<times> int list \<times> error option" where
  "adjustRange c rangeStr =
     (if length rangeStr < 1 then ([], [], Some ErrParameterRequired)
      else
        let rng = Split rangeStr (CHR ''!'') in
        if length rng \<noteq> 2 then ([], [], Some ErrParameterInvalid)
        else
          let trimRng = RemoveAll (CHR ''$'') (rng ! 1) in
          (case areaRefToCoordinates c trimRng of
             Inl err \<Rightarrow> (rng ! 0, [], Some err)
           | Inr (x1, y1, x2, y2) \<Rightarrow>
               if x1 = x2 \<and> y1 = y2 then (rng ! 0, [], Some ErrParameterInvalid)
               else
                 let (x1', x2') = (if x2 < x1 then (x2, x1) else (x1, x2));
                     (y1', y2') = (if y2 < y1 then (y2, y1) else (y1, y2))
                 in (rng ! 0, [x1', y1', x2', y2'], None)))"

subsection \<open>Options\<close>

record PivotTableField =
  Compact :: bool
  Data :: string
  Name :: string
  Outline :: bool
  Subtotal :: string
  DefaultSubtotal :: bool

text \<open>
  The four axis lists of the options are \<open>Rows\<close>, \<open>Columns\<close>, \<open>Data\<close> and \<open>Filter\<close>. The field
  \<open>Data\<close> of the options (a list) and the field \<open>Data\<close> of a \<open>PivotTableField\<close> (the source
  column's name) keep their names; the second is written \<open>PivotTableField.Data\<close> where
  both are in scope.
\<close>

record PivotTableOption =
  pivotTableSheetName :: string
  DataRange :: string
  PivotTableRange :: string
  Rows :: "PivotTableField list"
  Columns :: "PivotTableField list"
  Data :: "PivotTableField list"
  Filter :: "PivotTableField list"
  RowGrandTotals :: bool
  ColGrandTotals :: bool
  ShowDrill :: bool
  UseAutoFormatting :: bool
  PageOverThenDown :: bool
  MergeItem :: bool
  CompactData :: bool
  ShowError :: bool
  ShowRowHeaders :: bool
  ShowColHeaders :: bool
  ShowRowStripes :: bool
  ShowColStripes :: bool
  ShowLastColumn :: bool
  PivotTableStyleName :: string

text \<open>The zero value of \<open>PivotTableField\<close>, which Go returns for a named result never assigned.\<close>

definition zeroPivotTableField :: PivotTableField where
  "zeroPivotTableField =
     \<lparr>Compact = False, Data = [], Name = [], Outline = False, Subtotal = [],
      DefaultSubtotal = False\<rparr>"

text \<open>
  \<open>MaxFieldLength\<close> is declared in another file; the comment on \<open>PivotTableField\<close> gives its
  value: "Maximum 255 characters are allowed in data field name, excess characters will
  be truncated."
\<close>

definition MaxFieldLength :: nat where
  "MaxFieldLength = 255"

subsection \<open>Field order\<close>

text \<open>
  The loop of \<^verbatim>\<open>getPivotFieldsOrder\<close> over the columns \<open>x1 .. x2\<close> of the header row. When a
  cell cannot be read the source returns the names read so far together with the error.
\<close>

fun readHeaderRow ::
  "Collab \<Rightarrow> string \<Rightarrow> int \<Rightarrow> int list \<Rightarrow> string list \<Rightarrow> string list \<times> error option" where
  "readHeaderRow c dataSheet row [] order = (order, None)"
| "readHeaderRow c dataSheet row (col # cols) order =
     (case GetCellValue c dataSheet (CoordinatesToCellName c col row) of
        Inl err \<Rightarrow> (order, Some err)
      | Inr name \<Rightarrow> readHeaderRow c dataSheet row cols (order @ [name]))"

text \<open>The data range after the resolution of a defined name, as three functions compute it.\<close>

definition resolveDataRange :: "Collab \<Rightarrow> PivotTableOption \<Rightarrow> string" where
  "resolveDataRange c opts =
     (let dataRange = getDefinedNameRefTo c (DataRange opts) (pivotTableSheetName opts)
      in if dataRange = [] then DataRange opts else dataRange)"

definition getPivotFieldsOrder :: "Collab \<Rightarrow> PivotTableOption \<Rightarrow> string list \<times> error option" where
  "getPivotFieldsOrder c opts =
     (case adjustRange c (resolveDataRange c opts) of
        (dataSheet, coordinates, Some err) \<Rightarrow> ([], Some (ParsingError ''DataRange'' err))
      | (dataSheet, coordinates, None) \<Rightarrow>
          readHeaderRow c dataSheet (coordinates ! 1) [coordinates ! 0 .. coordinates ! 2] [])"

subsection \<open>Lookups in a list of fields\<close>

text \<open>\<^verbatim>\<open>inPivotTableField\<close>: the index of the first field whose \<open>Data\<close> is \<open>x\<close>, or \<open>-1\<close>.\<close>

fun inPivotTableField_from :: "int \<Rightarrow> PivotTableField list \<Rightarrow> string \<Rightarrow> int" where
  "inPivotTableField_from idx [] x = - 1"
| "inPivotTableField_from idx (n # ns) x =
     (if x = PivotTableField.Data n then idx else inPivotTableField_from (idx + 1) ns x)"

definition inPivotTableField :: "PivotTableField list \<Rightarrow> string \<Rightarrow> int" where
  "inPivotTableField a x = inPivotTableField_from 0 a x"

text \<open>
  Modelled from the spec: \<^verbatim>\<open>inStrSlice\<close> is declared in another file. The axis lists are
  built "by mapping its axis's caller-declared entries to their FieldOrder position",
  membership is "by exact name match (first match wins when duplicated within a list)",
  and the caller tests the result against \<open>-1\<close>. The third argument of the call (\<open>true\<close>)
  has no role in the model.
\<close>

fun inStrSlice_from :: "int \<Rightarrow> string list \<Rightarrow> string \<Rightarrow> int" where
  "inStrSlice_from idx [] x = - 1"
| "inStrSlice_from idx (n # ns) x = (if x = n then idx else inStrSlice_from (idx + 1) ns x)"

definition inStrSlice :: "string list \<Rightarrow> string \<Rightarrow> int" where
  "inStrSlice a x = inStrSlice_from 0 a x"

definition getPivotTableFieldsName :: "PivotTableField list \<Rightarrow> string list" where
  "getPivotTableFieldsName flds =
     map (\<lambda>fld. if length (Name fld) > MaxFieldLength then take MaxFieldLength (Name fld)
                 else Name fld) flds"

text \<open>
  \<^verbatim>\<open>getPivotTableFieldName\<close> walks \<open>fields\<close> and returns the entry of \<open>fieldsName\<close> at the index of
  the first field whose \<open>Data\<close> is \<open>name\<close>; the two lists have the same length.
\<close>

definition getPivotTableFieldName :: "string \<Rightarrow> PivotTableField list \<Rightarrow> string" where
  "getPivotTableFieldName name flds =
     (case find (\<lambda>(field, fieldName). PivotTableField.Data field = name)
             (zip flds (getPivotTableFieldsName flds)) of
        Some (field, fieldName) \<Rightarrow> fieldName
      | None \<Rightarrow> [])"

definition getPivotTableFieldOptions ::
  "string \<Rightarrow> PivotTableField list \<Rightarrow> PivotTableField \<times> bool" where
  "getPivotTableFieldOptions name flds =
     (case find (\<lambda>field. PivotTableField.Data field = name) flds of
        Some field \<Rightarrow> (field, True)
      | None \<Rightarrow> (zeroPivotTableField, False))"

text \<open>The loop of \<^verbatim>\<open>getPivotFieldsIndex\<close>: a position is appended only when it is not \<open>-1\<close>.\<close>

fun collectFieldsIndex :: "string list \<Rightarrow> PivotTableField list \<Rightarrow> int list" where
  "collectFieldsIndex orders [] = []"
| "collectFieldsIndex orders (field # flds) =
     (let pos = inStrSlice orders (PivotTableField.Data field)
      in if pos \<noteq> - 1 then pos # collectFieldsIndex orders flds
         else collectFieldsIndex orders flds)"

definition getPivotFieldsIndex ::
  "Collab \<Rightarrow> PivotTableField list \<Rightarrow> PivotTableOption \<Rightarrow> int list \<times> error option" where
  "getPivotFieldsIndex c flds opts =
     (case getPivotFieldsOrder c opts of
        (orders, Some err) \<Rightarrow> ([], Some err)
      | (orders, None) \<Rightarrow> (collectFieldsIndex orders flds, None))"

subsection \<open>Aggregation functions\<close>

definition enums :: "string list" where
  "enums = [''average'', ''count'', ''countNums'', ''max'', ''min'', ''product'', ''stdDev'',
            ''stdDevp'', ''sum'', ''var'', ''varp'']"

fun inEnums :: "string list \<Rightarrow> string \<Rightarrow> string" where
  "inEnums [] val = ''sum''"
| "inEnums (enum # es) val = (if EqualFold enum val then enum else inEnums es val)"

definition getPivotTableFieldsSubtotal :: "PivotTableField list \<Rightarrow> string list" where
  "getPivotTableFieldsSubtotal flds = map (\<lambda>fld. inEnums enums (Subtotal fld)) flds"

subsection \<open>The XML structures\<close>

text \<open>
  The structures are declared in another file; each record has the fields this file
  sets, under the Go field's name behind a prefix for the structure. A pointer field is an
  \<^typ>\<open>'a option\<close> where this file leaves it \<^verbatim>\<open>nil\<close> on some path, and the value itself where
  every path sets it. \<^verbatim>\<open>xml.Marshal\<close> is outside the model: a persisted part holds the
  structure itself, and marshalling never fails.
\<close>

record xlsxItem =
  it_T :: string
  it_X :: "int option"

record xlsxItems =
  its_Count :: int
  its_Item :: "xlsxItem list"

record xlsxPivotField =
  pf_Name :: string
  pf_Axis :: string
  pf_DataField :: bool
  pf_Compact :: "bool option"
  pf_Outline :: "bool option"
  pf_DefaultSubtotal :: "bool option"
  pf_Items :: "xlsxItems option"

record xlsxPivotFields =
  pfs_Count :: int
  pfs_PivotField :: "xlsxPivotField list"

record xlsxField =
  fld_X :: int

record xlsxRowFields =
  rf_Count :: int
  rf_Field :: "xlsxField list"

record xlsxColFields =
  cf_Count :: int
  cf_Field :: "xlsxField list"

record xlsxPageField =
  pg_Name :: string
  pg_Fld :: int

record xlsxPageFields =
  pgs_Count :: int
  pgs_PageField :: "xlsxPageField list"

record xlsxDataField =
  df_Name :: string
  df_Fld :: int
  df_Subtotal :: string

record xlsxDataFields =
  dfs_Count :: int
  dfs_DataField :: "xlsxDataField list"

record xlsxLocation =
  loc_Ref :: string
  loc_FirstDataCol :: int
  loc_FirstDataRow :: int
  loc_FirstHeaderRow :: int

text \<open>An \<^verbatim>\<open>xlsxX\<close> set by this file has no content; an \<^verbatim>\<open>xlsxI\<close> is its list of them.\<close>

type_synonym xlsxX = unit
type_synonym xlsxI = "xlsxX list"

record xlsxRowItems =
  ri_Count :: int
  ri_I :: "xlsxI list"

record xlsxColItems =
  ci_Count :: int
  ci_I :: "xlsxI list"

record xlsxPivotTableStyleInfo =
  psi_Name :: string
  psi_ShowRowHeaders :: bool
  psi_ShowColHeaders :: bool
  psi_ShowRowStripes :: bool
  psi_ShowColStripes :: bool
  psi_ShowLastColumn :: bool

record xlsxPivotTableDefinition =
  pt_Name :: string
  pt_CacheID :: int
  pt_RowGrandTotals :: bool
  pt_ColGrandTotals :: bool
  pt_UpdatedVersion :: int
  pt_MinRefreshableVersion :: int
  pt_ShowDrill :: bool
  pt_UseAutoFormatting :: bool
  pt_PageOverThenDown :: bool
  pt_MergeItem :: bool
  pt_CreatedVersion :: int
  pt_CompactData :: bool
  pt_ShowError :: bool
  pt_DataCaption :: string
  pt_Location :: xlsxLocation
  pt_PivotFields :: xlsxPivotFields
  pt_RowItems :: xlsxRowItems
  pt_ColItems :: xlsxColItems
  pt_PivotTableStyleInfo :: xlsxPivotTableStyleInfo
  pt_RowFields :: "xlsxRowFields option"
  pt_ColFields :: "xlsxColFields option"
  pt_PageFields :: "xlsxPageFields option"
  pt_DataFields :: "xlsxDataFields option"

text \<open>\<open>si_S\<close> is the pointer to an \<^verbatim>\<open>xlsxString\<close>, whose only field set here is its value \<open>V\<close>.\<close>

record xlsxSharedItems =
  si_Count :: int
  si_S :: "string option"

record xlsxCacheField =
  cfd_Name :: string
  cfd_SharedItems :: xlsxSharedItems

record xlsxCacheFields =
  cfs_Count :: int
  cfs_CacheField :: "xlsxCacheField list"

record xlsxWorksheetSource =
  ws_Ref :: string
  ws_Sheet :: string
  ws_Name :: string

record xlsxCacheSource =
  cs_Type :: string
  cs_WorksheetSource :: xlsxWorksheetSource

record xlsxPivotCacheDefinition =
  pc_SaveData :: bool
  pc_RefreshOnLoad :: bool
  pc_CreatedVersion :: int
  pc_RefreshedVersion :: int
  pc_MinRefreshableVersion :: int
  pc_CacheSource :: xlsxCacheSource
  pc_CacheFields :: xlsxCacheFields

record xlsxPivotCache =
  pch_CacheID :: int
  pch_RID :: string

subsection \<open>The cache definition\<close>

text \<open>The body of the loop of \<^verbatim>\<open>addPivotCache\<close> over the field order: one cache field.\<close>

definition cacheFieldOf :: "PivotTableOption \<Rightarrow> string \<Rightarrow> xlsxCacheField" where
  "cacheFieldOf opts name =
     (let (rowOptions, rowOk) = getPivotTableFieldOptions name (Rows opts);
          (columnOptions, colOk) = getPivotTableFieldOptions name (Columns opts);
          sharedItems = \<lparr>si_Count = 0, si_S = None\<rparr>;
          sharedItems =
            (if (rowOk \<and> \<not> DefaultSubtotal rowOptions) \<or> (colOk \<and> \<not> DefaultSubtotal columnOptions)
             then sharedItems\<lparr>si_Count := si_Count sharedItems + 1, si_S := Some []\<rparr>
             else sharedItems)
      in \<lparr>cfd_Name = name, cfd_SharedItems = sharedItems\<rparr>)"

text \<open>
  The cache definition that \<^verbatim>\<open>addPivotCache\<close> marshals, for a data range already adjusted
  to \<open>(dataSheet, coordinates)\<close>. The error of \<^verbatim>\<open>getPivotFieldsOrder\<close> is dropped there and
  the names it returned are used.
\<close>

definition pivotCacheDefinition ::
  "Collab \<Rightarrow> PivotTableOption \<Rightarrow> string \<Rightarrow> int list \<Rightarrow> xlsxPivotCacheDefinition" where
  "pivotCacheDefinition c opts dataSheet coordinates =
     (let definedNameRef =
            (getDefinedNameRefTo c (DataRange opts) (pivotTableSheetName opts) \<noteq> []);
          order = fst (getPivotFieldsOrder c opts);
          hCell = CoordinatesToCellName c (coordinates ! 0) (coordinates ! 1);
          vCell = CoordinatesToCellName c (coordinates ! 2) (coordinates ! 3);
          cacheField = map (cacheFieldOf opts) order
      in \<lparr>pc_SaveData = False,
          pc_RefreshOnLoad = True,
          pc_CreatedVersion = pivotTableVersion c,
          pc_RefreshedVersion = pivotTableVersion c,
          pc_MinRefreshableVersion = pivotTableVersion c,
          pc_CacheSource =
            \<lparr>cs_Type = ''worksheet'',
             cs_WorksheetSource =
               (if definedNameRef then \<lparr>ws_Ref = [], ws_Sheet = [], ws_Name = DataRange opts\<rparr>
                else \<lparr>ws_Ref = hCell @ '':'' @ vCell, ws_Sheet = dataSheet, ws_Name = []\<rparr>)\<rparr>,
          pc_CacheFields =
            \<lparr>cfs_Count = int (length cacheField), cfs_CacheField = cacheField\<rparr>\<rparr>)"

subsection \<open>The pivot fields of the table definition\<close>

text \<open>
  The body of the loop of \<^verbatim>\<open>addPivotFields\<close>: the four tests run in the order of the source,
  each ending the iteration (\<^verbatim>\<open>continue\<close>). \<open>x\<close> is the local variable \<open>0\<close> whose address the
  index items hold.
\<close>

definition emptyPivotField :: xlsxPivotField where
  "emptyPivotField =
     \<lparr>pf_Name = [], pf_Axis = [], pf_DataField = False, pf_Compact = None, pf_Outline = None,
      pf_DefaultSubtotal = None, pf_Items = None\<rparr>"

definition subtotalItems :: "PivotTableField \<times> bool \<Rightarrow> xlsxItem list" where
  "subtotalItems r =
     (case r of (options, ok) \<Rightarrow>
        if \<not> ok \<or> \<not> DefaultSubtotal options then [\<lparr>it_T = [], it_X = Some 0\<rparr>]
        else [\<lparr>it_T = ''default'', it_X = None\<rparr>])"

definition pivotFieldOf :: "PivotTableOption \<Rightarrow> string \<Rightarrow> xlsxPivotField" where
  "pivotFieldOf opts name =
     (if inPivotTableField (Rows opts) name \<noteq> - 1 then
        (let (rowOptions, ok) = getPivotTableFieldOptions name (Rows opts);
             items = subtotalItems (rowOptions, ok)
         in \<lparr>pf_Name = getPivotTableFieldName name (Rows opts),
             pf_Axis = ''axisRow'',
             pf_DataField = (inPivotTableField (Data opts) name \<noteq> - 1),
             pf_Compact = Some (Compact rowOptions),
             pf_Outline = Some (Outline rowOptions),
             pf_DefaultSubtotal = Some (DefaultSubtotal rowOptions),
             pf_Items = Some \<lparr>its_Count = int (length items), its_Item = items\<rparr>\<rparr>)
      else if inPivotTableField (Filter opts) name \<noteq> - 1 then
        \<lparr>pf_Name = getPivotTableFieldName name (Columns opts),
         pf_Axis = ''axisPage'',
         pf_DataField = (inPivotTableField (Data opts) name \<noteq> - 1),
         pf_Compact = None,
         pf_Outline = None,
         pf_DefaultSubtotal = None,
         pf_Items = Some \<lparr>its_Count = 1, its_Item = [\<lparr>it_T = ''default'', it_X = None\<rparr>]\<rparr>\<rparr>
      else if inPivotTableField (Columns opts) name \<noteq> - 1 then
        (let (columnOptions, ok) = getPivotTableFieldOptions name (Columns opts);
             items = subtotalItems (columnOptions, ok)
         in \<lparr>pf_Name = getPivotTableFieldName name (Columns opts),
             pf_Axis = ''axisCol'',
             pf_DataField = (inPivotTableField (Data opts) name \<noteq> - 1),
             pf_Compact = Some (Compact columnOptions),
             pf_Outline = Some (Outline columnOptions),
             pf_DefaultSubtotal = Some (DefaultSubtotal columnOptions),
             pf_Items = Some \<lparr>its_Count = int (length items), its_Item = items\<rparr>\<rparr>)
      else if inPivotTableField (Data opts) name \<noteq> - 1 then
        emptyPivotField\<lparr>pf_DataField := True\<rparr>
      else emptyPivotField)"

definition addPivotFields ::
  "Collab \<Rightarrow> xlsxPivotTableDefinition \<Rightarrow> PivotTableOption \<Rightarrow>
   xlsxPivotTableDefinition \<times> error option" where
  "addPivotFields c pt opts =
     (case getPivotFieldsOrder c opts of
        (order, Some err) \<Rightarrow> (pt, Some err)
      | (order, None) \<Rightarrow>
          (pt\<lparr>pt_PivotFields :=
                (pt_PivotFields pt)
                  \<lparr>pfs_PivotField :=
                     pfs_PivotField (pt_PivotFields pt) @ map (pivotFieldOf opts) order\<rparr>\<rparr>,
           None))"

subsection \<open>The axis field lists of the table definition\<close>

text \<open>
  The bodies of the three loops that append to an axis list: the list is created when it
  is \<^verbatim>\<open>nil\<close>, and the entry is appended.
\<close>

definition appendRowField :: "int \<Rightarrow> xlsxPivotTableDefinition \<Rightarrow> xlsxPivotTableDefinition" where
  "appendRowField fieldIdx pt =
     (let rf = (case pt_RowFields pt of None \<Rightarrow> \<lparr>rf_Count = 0, rf_Field = []\<rparr> | Some rf \<Rightarrow> rf)
      in pt\<lparr>pt_RowFields := Some (rf\<lparr>rf_Field := rf_Field rf @ [\<lparr>fld_X = fieldIdx\<rparr>]\<rparr>)\<rparr>)"

definition appendPageField ::
  "xlsxPageField \<Rightarrow> xlsxPivotTableDefinition \<Rightarrow> xlsxPivotTableDefinition" where
  "appendPageField pageField pt =
     (let pgs = (case pt_PageFields pt of
                   None \<Rightarrow> \<lparr>pgs_Count = 0, pgs_PageField = []\<rparr>
                 | Some pgs \<Rightarrow> pgs)
      in pt\<lparr>pt_PageFields := Some (pgs\<lparr>pgs_PageField := pgs_PageField pgs @ [pageField]\<rparr>)\<rparr>)"

definition appendDataField ::
  "xlsxDataField \<Rightarrow> xlsxPivotTableDefinition \<Rightarrow> xlsxPivotTableDefinition" where
  "appendDataField dataField pt =
     (let dfs = (case pt_DataFields pt of
                   None \<Rightarrow> \<lparr>dfs_Count = 0, dfs_DataField = []\<rparr>
                 | Some dfs \<Rightarrow> dfs)
      in pt\<lparr>pt_DataFields := Some (dfs\<lparr>dfs_DataField := dfs_DataField dfs @ [dataField]\<rparr>)\<rparr>)"

definition addPivotRowFields ::
  "Collab \<Rightarrow> xlsxPivotTableDefinition \<Rightarrow> PivotTableOption \<Rightarrow>
   xlsxPivotTableDefinition \<times> error option" where
  "addPivotRowFields c pt opts =
     (case getPivotFieldsIndex c (Rows opts) opts of
        (rowFieldsIndex, Some err) \<Rightarrow> (pt, Some err)
      | (rowFieldsIndex, None) \<Rightarrow>
          (let pt1 = fold appendRowField rowFieldsIndex pt;
               pt2 =
                 (case pt_RowFields pt1 of
                    None \<Rightarrow> pt1
                  | Some rf \<Rightarrow>
                      pt1\<lparr>pt_RowFields := Some (rf\<lparr>rf_Count := int (length (rf_Field rf))\<rparr>)\<rparr>)
           in (pt2, None)))"

text \<open>
  In the next two functions the loop runs over the positions \<open>idx\<close> of the index list and
  reads the lists of names and of subtotals, built from the declared entries, at the same
  \<open>idx\<close>. The index list is never the longer one, so the reads are in range.
\<close>

definition addPivotPageFields ::
  "Collab \<Rightarrow> xlsxPivotTableDefinition \<Rightarrow> PivotTableOption \<Rightarrow>
   xlsxPivotTableDefinition \<times> error option" where
  "addPivotPageFields c pt opts =
     (case getPivotFieldsIndex c (Filter opts) opts of
        (pageFieldsIndex, Some err) \<Rightarrow> (pt, Some err)
      | (pageFieldsIndex, None) \<Rightarrow>
          (let pageFieldsName = getPivotTableFieldsName (Filter opts);
               pt1 =
                 fold (\<lambda>idx. appendPageField
                                \<lparr>pg_Name = pageFieldsName ! idx, pg_Fld = pageFieldsIndex ! idx\<rparr>)
                   [0 ..< length pageFieldsIndex] pt;
               pt2 =
                 (case pt_PageFields pt1 of
                    None \<Rightarrow> pt1
                  | Some pgs \<Rightarrow>
                      pt1\<lparr>pt_PageFields :=
                            Some (pgs\<lparr>pgs_Count := int (length (pgs_PageField pgs))\<rparr>)\<rparr>)
           in (pt2, None)))"

definition addPivotDataFields ::
  "Collab \<Rightarrow> xlsxPivotTableDefinition \<Rightarrow> PivotTableOption \<Rightarrow>
   xlsxPivotTableDefinition \<times> error option" where
  "addPivotDataFields c pt opts =
     (case getPivotFieldsIndex c (Data opts) opts of
        (dataFieldsIndex, Some err) \<Rightarrow> (pt, Some err)
      | (dataFieldsIndex, None) \<Rightarrow>
          (let dataFieldsSubtotals = getPivotTableFieldsSubtotal (Data opts);
               dataFieldsName = getPivotTableFieldsName (Data opts);
               pt1 =
                 fold (\<lambda>idx. appendDataField
                                \<lparr>df_Name = dataFieldsName ! idx,
                                 df_Fld = dataFieldsIndex ! idx,
                                 df_Subtotal = dataFieldsSubtotals ! idx\<rparr>)
                   [0 ..< length dataFieldsIndex] pt;
               pt2 =
                 (case pt_DataFields pt1 of
                    None \<Rightarrow> pt1
                  | Some dfs \<Rightarrow>
                      pt1\<lparr>pt_DataFields :=
                            Some (dfs\<lparr>dfs_Count := int (length (dfs_DataField dfs))\<rparr>)\<rparr>)
           in (pt2, None)))"

text \<open>
  \<^verbatim>\<open>addPivotColFields\<close>. With no column declared the function returns before
  \<^verbatim>\<open>getPivotFieldsIndex\<close> is called; with columns declared it first replaces the section by
  an empty one, and only then resolves the indices.
\<close>

definition addPivotColFields ::
  "Collab \<Rightarrow> xlsxPivotTableDefinition \<Rightarrow> PivotTableOption \<Rightarrow>
   xlsxPivotTableDefinition \<times> error option" where
  "addPivotColFields c pt opts =
     (if length (Columns opts) = 0 then
        (if length (Data opts) \<le> 1 then (pt, None)
         else (pt\<lparr>pt_ColFields := Some \<lparr>cf_Count = 1, cf_Field = [\<lparr>fld_X = - 2\<rparr>]\<rparr>\<rparr>, None))
      else
        (let pt0 = pt\<lparr>pt_ColFields := Some \<lparr>cf_Count = 0, cf_Field = []\<rparr>\<rparr>
         in case getPivotFieldsIndex c (Columns opts) opts of
              (colFieldsIndex, Some err) \<Rightarrow> (pt0, Some err)
            | (colFieldsIndex, None) \<Rightarrow>
                (let field1 = map (\<lambda>fieldIdx. \<lparr>fld_X = fieldIdx\<rparr>) colFieldsIndex;
                     field2 = (if length (Data opts) > 1 then field1 @ [\<lparr>fld_X = - 2\<rparr>]
                               else field1)
                 in (pt0\<lparr>pt_ColFields :=
                          Some \<lparr>cf_Count = int (length field2), cf_Field = field2\<rparr>\<rparr>,
                     None))))"

subsection \<open>The document\<close>

text \<open>
  The parts of the document that this file writes: the package parts \<open>Pkg\<close> (a
  concurrent map in the source, here an association list with one entry per key), the
  relationship parts, the content types, and the pivot caches of the workbook
  (\<^verbatim>\<open>wb.PivotCaches\<close>, \<^verbatim>\<open>nil\<close> in a workbook that never had one).
\<close>

datatype part =
    RawPart string
  | PivotCachePart xlsxPivotCacheDefinition
  | PivotTablePart xlsxPivotTableDefinition

datatype relType = SourceRelationshipPivotCache | SourceRelationshipPivotTable | OtherRelationship string

record xlsxRelationship =
  rel_ID :: int
  rel_Type :: relType
  rel_Target :: string
  rel_TargetMode :: string

record File =
  Pkg :: "(string \<times> part) list"
  Relationships :: "(string \<times> xlsxRelationship list) list"
  ContentTypes :: "(int \<times> string) list"
  PivotCaches :: "xlsxPivotCache list option"

fun Store :: "string \<Rightarrow> 'v \<Rightarrow> (string \<times> 'v) list \<Rightarrow> (string \<times> 'v) list" where
  "Store k v [] = [(k, v)]"
| "Store k v ((k', v') # kvs) = (if k = k' then (k, v) # kvs else (k', v') # Store k v kvs)"

text \<open>
  Modelled from the spec: \<^verbatim>\<open>saveFileList\<close> is declared in another file; it is to "persist a
  named byte blob as a package part".
\<close>

definition saveFileList :: "string \<Rightarrow> part \<Rightarrow> File \<Rightarrow> File" where
  "saveFileList name content f = f\<lparr>Pkg := Store name content (Pkg f)\<rparr>"

text \<open>
  Modelled from the spec: \<^verbatim>\<open>addRels\<close> is declared in another file; it is to "allocate a
  relationship ID given a source path, relationship type, and target, returning the new
  ID". The spec leaves the numbering open; the model takes one more than the largest ID
  of the relationship part, and no theorem below depends on the choice.
\<close>

definition addRels :: "File \<Rightarrow> string \<Rightarrow> relType \<Rightarrow> string \<Rightarrow> string \<Rightarrow> File \<times> int" where
  "addRels f relPath relType target targetMode =
     (let rels = (case map_of (Relationships f) relPath of None \<Rightarrow> [] | Some rs \<Rightarrow> rs);
          rID = fold (\<lambda>r m. max (rel_ID r) m) rels 0 + 1;
          rel = \<lparr>rel_ID = rID, rel_Type = relType, rel_Target = target,
                 rel_TargetMode = targetMode\<rparr>
      in (f\<lparr>Relationships := Store relPath (rels @ [rel]) (Relationships f)\<rparr>, rID))"

text \<open>
  Modelled from the spec: \<^verbatim>\<open>addContentTypePart\<close> is declared in another file; it is to
  "register a content-type part given a sequence number and a type tag".
\<close>

definition addContentTypePart :: "File \<Rightarrow> int \<Rightarrow> string \<Rightarrow> File" where
  "addContentTypePart f index contentType =
     f\<lparr>ContentTypes := ContentTypes f @ [(index, contentType)]\<rparr>"

text \<open>
  \<^verbatim>\<open>countPivotTables\<close> and \<^verbatim>\<open>countPivotCache\<close> range over the package and add one for each
  key that contains the path fragment (\<^verbatim>\<open>strings.Contains\<close>).
\<close>

definition countPivotTables :: "File \<Rightarrow> int" where
  "countPivotTables f =
     fold (\<lambda>(k, v) count. if Contains k ''xl/pivotTables/pivotTable'' then count + 1 else count)
       (Pkg f) 0"

definition countPivotCache :: "File \<Rightarrow> int" where
  "countPivotCache f =
     fold (\<lambda>(k, v) count.
             if Contains k ''xl/pivotCache/pivotCacheDefinition'' then count + 1 else count)
       (Pkg f) 0"

text \<open>
  \<^verbatim>\<open>addWorkbookPivotCache\<close>: the running maximum starts at \<open>1\<close>, not at the first ID, and is
  incremented once after the loop.
\<close>

definition addWorkbookPivotCache :: "File \<Rightarrow> int \<Rightarrow> File \<times> int" where
  "addWorkbookPivotCache f RID =
     (let pivotCaches = (case PivotCaches f of None \<Rightarrow> [] | Some pcs \<Rightarrow> pcs);
          cacheID =
            fold (\<lambda>pivotCache cacheID.
                    if pch_CacheID pivotCache > cacheID then pch_CacheID pivotCache else cacheID)
              pivotCaches 1;
          cacheID = cacheID + 1
      in (f\<lparr>PivotCaches :=
              Some (pivotCaches @ [\<lparr>pch_CacheID = cacheID, pch_RID = ''rId'' @ Itoa RID\<rparr>])\<rparr>,
          cacheID))"

subsection \<open>Persisting the two definitions\<close>

definition addPivotCache :: "Collab \<Rightarrow> string \<Rightarrow> PivotTableOption \<Rightarrow> File \<Rightarrow> File \<times> error option" where
  "addPivotCache c pivotCacheXML opts f =
     (case adjustRange c (resolveDataRange c opts) of
        (dataSheet, coordinates, Some err) \<Rightarrow> (f, Some (ParsingError ''DataRange'' err))
      | (dataSheet, coordinates, None) \<Rightarrow>
          (saveFileList pivotCacheXML
             (PivotCachePart (pivotCacheDefinition c opts dataSheet coordinates)) f,
           None))"

text \<open>
  The table definition that \<^verbatim>\<open>addPivotTable\<close> marshals, for a placement range already
  adjusted. The errors of the five builders are dropped, as in the source.
\<close>

definition pivotTableDefinition ::
  "Collab \<Rightarrow> int \<Rightarrow> int \<Rightarrow> PivotTableOption \<Rightarrow> int list \<Rightarrow> xlsxPivotTableDefinition" where
  "pivotTableDefinition c cacheID pivotTableID opts coordinates =
     (let hCell = CoordinatesToCellName c (coordinates ! 0) (coordinates ! 1);
          vCell = CoordinatesToCellName c (coordinates ! 2) (coordinates ! 3);
          pivotTableStyle =
            (if PivotTableStyleName opts = [] then ''PivotStyleLight16''
             else PivotTableStyleName opts);
          pt =
            \<lparr>pt_Name = ''Pivot Table'' @ Itoa pivotTableID,
             pt_CacheID = cacheID,
             pt_RowGrandTotals = RowGrandTotals opts,
             pt_ColGrandTotals = ColGrandTotals opts,
             pt_UpdatedVersion = pivotTableVersion c,
             pt_MinRefreshableVersion = pivotTableVersion c,
             pt_ShowDrill = ShowDrill opts,
             pt_UseAutoFormatting = UseAutoFormatting opts,
             pt_PageOverThenDown = PageOverThenDown opts,
             pt_MergeItem = MergeItem opts,
             pt_CreatedVersion = pivotTableVersion c,
             pt_CompactData = CompactData opts,
             pt_ShowError = ShowError opts,
             pt_DataCaption = ''Values'',
             pt_Location =
               \<lparr>loc_Ref = hCell @ '':'' @ vCell, loc_FirstDataCol = 1, loc_FirstDataRow = 1,
                loc_FirstHeaderRow = 1\<rparr>,
             pt_PivotFields = \<lparr>pfs_Count = 0, pfs_PivotField = []\<rparr>,
             pt_RowItems = \<lparr>ri_Count = 1, ri_I = [[(), ()]]\<rparr>,
             pt_ColItems = \<lparr>ci_Count = 1, ci_I = [[]]\<rparr>,
             pt_PivotTableStyleInfo =
               \<lparr>psi_Name = pivotTableStyle,
                psi_ShowRowHeaders = ShowRowHeaders opts,
                psi_ShowColHeaders = ShowColHeaders opts,
                psi_ShowRowStripes = ShowRowStripes opts,
                psi_ShowColStripes = ShowColStripes opts,
                psi_ShowLastColumn = ShowLastColumn opts\<rparr>,
             pt_RowFields = None,
             pt_ColFields = None,
             pt_PageFields = None,
             pt_DataFields = None\<rparr>;
          pt = fst (addPivotFields c pt opts);
          pt = pt\<lparr>pt_PivotFields :=
                   (pt_PivotFields pt)
                     \<lparr>pfs_Count := int (length (pfs_PivotField (pt_PivotFields pt)))\<rparr>\<rparr>;
          pt = fst (addPivotRowFields c pt opts);
          pt = fst (addPivotColFields c pt opts);
          pt = fst (addPivotPageFields c pt opts);
          pt = fst (addPivotDataFields c pt opts)
      in pt)"

definition addPivotTable ::
  "Collab \<Rightarrow> int \<Rightarrow> int \<Rightarrow> string \<Rightarrow> PivotTableOption \<Rightarrow> File \<Rightarrow> File \<times> error option" where
  "addPivotTable c cacheID pivotTableID pivotTableXML opts f =
     (case adjustRange c (PivotTableRange opts) of
        (sheet, coordinates, Some err) \<Rightarrow> (f, Some (ParsingError ''PivotTableRange'' err))
      | (sheet, coordinates, None) \<Rightarrow>
          (saveFileList pivotTableXML
             (PivotTablePart (pivotTableDefinition c cacheID pivotTableID opts coordinates)) f,
           None))"

subsection \<open>AddPivotTable\<close>

text \<open>
  \<^verbatim>\<open>parseFormatPivotTableSet\<close> returns \<open>(opts, pivotTableSheetPath, err)\<close>: the options as
  the function leaves them behind the caller's pointer (it stores the sheet name of the
  placement range in them), the path of the placement sheet, and the error. The
  worksheet it also returns is dropped by its only caller and is left out. It reads the
  document through the collaborators only, and writes nothing to it.
\<close>

definition parseFormatPivotTableSet ::
  "Collab \<Rightarrow> PivotTableOption option \<Rightarrow> PivotTableOption option \<times> string \<times> error option" where
  "parseFormatPivotTableSet c opts =
     (case opts of
        None \<Rightarrow> (None, [], Some ErrParameterRequired)
      | Some opts0 \<Rightarrow>
          (case adjustRange c (PivotTableRange opts0) of
             (sheetName, coordinates, Some err) \<Rightarrow>
               (Some opts0, [], Some (ParsingError ''PivotTableRange'' err))
           | (sheetName, coordinates, None) \<Rightarrow>
               (let opts1 = opts0\<lparr>pivotTableSheetName := sheetName\<rparr>;
                    dataRange = getDefinedNameRefTo c (DataRange opts1) sheetName;
                    dataRange = (if dataRange = [] then DataRange opts1 else dataRange)
                in case adjustRange c dataRange of
                     (dataSheetName, coordinates, Some err) \<Rightarrow>
                       (Some opts1, [], Some (ParsingError ''DataRange'' err))
                   | (dataSheetName, coordinates, None) \<Rightarrow>
                       (case workSheetReader c dataSheetName of
                          Some err \<Rightarrow> (Some opts1, [], Some err)
                        | None \<Rightarrow>
                            (case getSheetXMLPath c sheetName of
                               (pivotTableSheetPath, ok) \<Rightarrow>
                                 if \<not> ok
                                 then (Some opts1, pivotTableSheetPath,
                                       Some (SheetNotExist sheetName))
                                 else (Some opts1, pivotTableSheetPath, None))))))"

text \<open>
  \<^verbatim>\<open>AddPivotTable\<close> returns the document and the error. The second case cannot happen
  (validation never succeeds on \<^verbatim>\<open>nil\<close> options); it is there to make the case
  distinction complete.
\<close>

definition AddPivotTable :: "Collab \<Rightarrow> PivotTableOption option \<Rightarrow> File \<Rightarrow> File \<times> error option" where
  "AddPivotTable c opts f =
     (case parseFormatPivotTableSet c opts of
        (optsv, pivotTableSheetPath, Some err) \<Rightarrow> (f, Some err)
      | (None, pivotTableSheetPath, None) \<Rightarrow> (f, Some ErrParameterRequired)
      | (Some opts0, pivotTableSheetPath, None) \<Rightarrow>
          (let pivotTableID = countPivotTables f + 1;
               pivotCacheID = countPivotCache f + 1;
               sheetRelationshipsPivotTableXML =
                 ''../pivotTables/pivotTable'' @ Itoa pivotTableID @ ''.xml'';
               pivotTableXML = ReplaceDotDot sheetRelationshipsPivotTableXML ''xl'';
               pivotCacheXML = ''xl/pivotCache/pivotCacheDefinition'' @ Itoa pivotCacheID @ ''.xml''
           in case addPivotCache c pivotCacheXML opts0 f of
                (f1, Some err) \<Rightarrow> (f1, Some err)
              | (f1, None) \<Rightarrow>
                  (let (f2, workBookPivotCacheRID) =
                         addRels f1 (getWorkbookRelsPath c) SourceRelationshipPivotCache
                           (''/xl/pivotCache/pivotCacheDefinition'' @ Itoa pivotCacheID @ ''.xml'') [];
                       (f3, cacheID) = addWorkbookPivotCache f2 workBookPivotCacheRID;
                       pivotCacheRels =
                         ''xl/pivotTables/_rels/pivotTable'' @ Itoa pivotTableID @ ''.xml.rels'';
                       (f4, rID) =
                         addRels f3 pivotCacheRels SourceRelationshipPivotCache
                           (''../pivotCache/pivotCacheDefinition'' @ Itoa pivotCacheID @ ''.xml'') []
                   in case addPivotTable c cacheID pivotTableID pivotTableXML opts0 f4 of
                        (f5, Some err) \<Rightarrow> (f5, Some err)
                      | (f5, None) \<Rightarrow>
                          (let pivotTableSheetRels =
                                 ''xl/worksheets/_rels/'' @
                                 TrimPrefix pivotTableSheetPath ''xl/worksheets/'' @ ''.rels'';
                               (f6, rID2) =
                                 addRels f5 pivotTableSheetRels SourceRelationshipPivotTable
                                   sheetRelationshipsPivotTableXML [];
                               f7 = addContentTypePart f6 pivotTableID ''pivotTable'';
                               f8 = addContentTypePart f7 pivotCacheID ''pivotCache''
                           in (f8, None)))))"

subsection \<open>A concrete document\<close>

text \<open>
  Modelled from the spec: \<^verbatim>\<open>areaRefToCoordinates\<close> and \<^verbatim>\<open>CoordinatesToCellName\<close> are declared
  in another file. A range has the form \<^verbatim>\<open>Sheet!$A$1:$E$31\<close>, its address is parsed "into two
  cell coordinates", "1-based column/row coordinates", and a failure is an
  \<open>InvalidParameter\<close>. The two functions below are one such pair: a cell name is letters
  (the column, in bijective base 26) followed by digits (the row, at least 1). They
  instantiate the collaborators at the concrete inputs of this theory; the theorems
  themselves hold for any collaborators.
\<close>

definition isLetter :: "char \<Rightarrow> bool" where
  "isLetter ch = (let n = of_char ch :: nat in (65 \<le> n \<and> n \<le> 90) \<or> (97 \<le> n \<and> n \<le> 122))"

definition isDigit :: "char \<Rightarrow> bool" where
  "isDigit ch = (let n = of_char ch :: nat in 48 \<le> n \<and> n \<le> 57)"

definition letterValue :: "char \<Rightarrow> nat" where
  "letterValue ch = (let n = of_char ch :: nat in if 97 \<le> n then n - 96 else n - 64)"

definition columnNumber :: "string \<Rightarrow> nat" where
  "columnNumber col = foldl (\<lambda>n ch. n * 26 + letterValue ch) 0 col"

definition rowNumber :: "string \<Rightarrow> nat" where
  "rowNumber row = foldl (\<lambda>n ch. n * 10 + (of_char ch - 48)) 0 row"

definition cellNameToCoordinates :: "string \<Rightarrow> error + (int \<times> int)" where
  "cellNameToCoordinates cell =
     (let col = takeWhile isLetter cell; row = dropWhile isLetter cell
      in if col = [] \<or> row = [] \<or> \<not> list_all isDigit row \<or> rowNumber row = 0
         then Inl ErrParameterInvalid
         else Inr (int (columnNumber col), int (rowNumber row)))"

definition areaRefToCoordinates_spec :: "string \<Rightarrow> error + (int \<times> int \<times> int \<times> int)" where
  "areaRefToCoordinates_spec ref =
     (case Split ref (CHR '':'') of
        firstCell # lastCell # rest \<Rightarrow>
          (case cellNameToCoordinates firstCell of
             Inl err \<Rightarrow> Inl err
           | Inr (x1, y1) \<Rightarrow>
               (case cellNameToCoordinates lastCell of
                  Inl err \<Rightarrow> Inl err
                | Inr (x2, y2) \<Rightarrow> Inr (x1, y1, x2, y2)))
      | _ \<Rightarrow> Inl ErrParameterInvalid)"

function columnName :: "nat \<Rightarrow> string" where
  "columnName n =
     (if n = 0 then []
      else columnName ((n - 1) div 26) @ [''ABCDEFGHIJKLMNOPQRSTUVWXYZ'' ! ((n - 1) mod 26)])"
  by pat_completeness auto
termination
  by (relation "measure id") auto

definition CoordinatesToCellName_spec :: "int \<Rightarrow> int \<Rightarrow> string" where
  "CoordinatesToCellName_spec col row = columnName (nat col) @ Itoa row"

text \<open>
  The workbook of the example in the comment on \<^verbatim>\<open>AddPivotTable\<close>: one sheet \<^verbatim>\<open>Sheet1\<close> whose
  first row holds the five column names, and no defined name.
\<close>

definition exampleCells :: "(string \<times> string) list" where
  "exampleCells =
     [(''A1'', ''Month''), (''B1'', ''Year''), (''C1'', ''Type''), (''D1'', ''Sales''),
      (''E1'', ''Region'')]"

definition exampleCollab :: Collab where
  "exampleCollab =
     \<lparr>areaRefToCoordinates = areaRefToCoordinates_spec,
      CoordinatesToCellName = CoordinatesToCellName_spec,
      getDefinedNameRefTo = (\<lambda>name sheet. []),
      GetCellValue =
        (\<lambda>sheet cell.
           if sheet = ''Sheet1''
           then Inr (case map_of exampleCells cell of None \<Rightarrow> [] | Some v \<Rightarrow> v)
           else Inl (SheetNotExist sheet)),
      workSheetReader = (\<lambda>sheet. if sheet = ''Sheet1'' then None else Some (SheetNotExist sheet)),
      getSheetXMLPath =
        (\<lambda>sheet. if sheet = ''Sheet1'' then (''xl/worksheets/sheet1.xml'', True) else ([], False)),
      getWorkbookRelsPath = ''xl/_rels/workbook.xml.rels'',
      pivotTableVersion = 3\<rparr>"

text \<open>
  A second address parser for the concrete inputs. It parses as the first one does, but
  reports a malformed cell name with an error of the cell-name conversion instead of the
  sentinel. \<^verbatim>\<open>adjustRange\<close> has no say in which errors the package's parser returns: it hands
  the error on as it is.
\<close>

definition cellNameError :: "string \<Rightarrow> error" where
  "cellNameError cell = CollabError (''cannot convert cell '' @ cell @ '' to coordinates'')"

definition areaRefToCoordinates_cellError :: "string \<Rightarrow> error + (int \<times> int \<times> int \<times> int)" where
  "areaRefToCoordinates_cellError ref =
     (case Split ref (CHR '':'') of
        firstCell # lastCell # rest \<Rightarrow>
          (case cellNameToCoordinates firstCell of
             Inl err \<Rightarrow> Inl (cellNameError firstCell)
           | Inr (x1, y1) \<Rightarrow>
               (case cellNameToCoordinates lastCell of
                  Inl err \<Rightarrow> Inl (cellNameError lastCell)
                | Inr (x2, y2) \<Rightarrow> Inr (x1, y1, x2, y2)))
      | _ \<Rightarrow> Inl ErrParameterInvalid)"

definition cellErrorCollab :: Collab where
  "cellErrorCollab = exampleCollab\<lparr>areaRefToCoordinates := areaRefToCoordinates_cellError\<rparr>"

definition exampleFile :: File where
  "exampleFile =
     \<lparr>Pkg = [(''xl/workbook.xml'', RawPart []), (''xl/worksheets/sheet1.xml'', RawPart [])],
      Relationships = [],
      ContentTypes = [],
      PivotCaches = None\<rparr>"

definition noOptions :: PivotTableOption where
  "noOptions =
     \<lparr>pivotTableSheetName = [], DataRange = [], PivotTableRange = [], Rows = [], Columns = [],
      Data = [], Filter = [], RowGrandTotals = False, ColGrandTotals = False,
      ShowDrill = False, UseAutoFormatting = False, PageOverThenDown = False,
      MergeItem = False, CompactData = False, ShowError = False, ShowRowHeaders = False,
      ShowColHeaders = False, ShowRowStripes = False, ShowColStripes = False,
      ShowLastColumn = False, PivotTableStyleName = []\<rparr>"

definition fieldNamed :: "string \<Rightarrow> PivotTableField" where
  "fieldNamed name = zeroPivotTableField\<lparr>PivotTableField.Data := name\<rparr>"

definition exampleOptions :: PivotTableOption where
  "exampleOptions =
     noOptions
       \<lparr>DataRange := ''Sheet1!$A$1:$E$31'',
        PivotTableRange := ''Sheet1!$G$2:$M$34'',
        Rows := [(fieldNamed ''Month'')\<lparr>DefaultSubtotal := True\<rparr>, fieldNamed ''Year''],
        Filter := [fieldNamed ''Region''],
        Columns := [(fieldNamed ''Type'')\<lparr>DefaultSubtotal := True\<rparr>],
        Data := [(fieldNamed ''Sales'')\<lparr>Name := ''Summarize'', Subtotal := ''Sum''\<rparr>],
        RowGrandTotals := True, ColGrandTotals := True, ShowDrill := True,
        ShowRowHeaders := True, ShowColHeaders := True, ShowLastColumn := True\<rparr>"

subsection \<open>Notions of the specification\<close>

text \<open>A name is declared in an axis list when some entry of the list has it as its \<open>Data\<close>.\<close>

definition declared :: "string \<Rightarrow> PivotTableField list \<Rightarrow> bool" where
  "declared name flds = (name \<in> PivotTableField.Data ` set flds)"

text \<open>
  Options that declare names in several lists at once: \<^verbatim>\<open>Month\<close> in Rows, Filter and Data,
  \<^verbatim>\<open>Region\<close> in Filter and Columns, \<^verbatim>\<open>Type\<close> in Columns and Data, \<^verbatim>\<open>Year\<close> nowhere.
\<close>

definition overlapOptions :: PivotTableOption where
  "overlapOptions =
     exampleOptions
       \<lparr>Rows := [fieldNamed ''Month''],
        Filter := [fieldNamed ''Month'', (fieldNamed ''Region'')\<lparr>Name := ''Area''\<rparr>],
        Columns := [fieldNamed ''Region'', (fieldNamed ''Type'')\<lparr>Name := ''Kind''\<rparr>],
        Data := [fieldNamed ''Type'', fieldNamed ''Sales'', fieldNamed ''Month'']\<rparr>"

text \<open>The options of the example, the filter field given the display name \<^verbatim>\<open>Area\<close>.\<close>

definition namedFilterOptions :: PivotTableOption where
  "namedFilterOptions =
     exampleOptions\<lparr>Filter := [(fieldNamed ''Region'')\<lparr>Name := ''Area''\<rparr>]\<rparr>"

text \<open>
  The position of the first occurrence of a name in the field order, and the positions of
  the entries of an axis list that match a name of the field order, in the order of the
  declarations.
\<close>

definition firstIndex :: "string list \<Rightarrow> string \<Rightarrow> nat" where
  "firstIndex orders x = length (takeWhile (\<lambda>n. n \<noteq> x) orders)"

definition matchingPositions :: "string list \<Rightarrow> PivotTableField list \<Rightarrow> int list" where
  "matchingPositions orders flds =
     map (\<lambda>fld. int (firstIndex orders (PivotTableField.Data fld)))
       (filter (\<lambda>fld. PivotTableField.Data fld \<in> set orders) flds)"

text \<open>The indices that the four axis sections of a table definition hold; none for a missing section.\<close>

definition rowFieldIndexes :: "xlsxPivotTableDefinition \<Rightarrow> int list" where
  "rowFieldIndexes pt = (case pt_RowFields pt of None \<Rightarrow> [] | Some rf \<Rightarrow> map fld_X (rf_Field rf))"

definition colFieldIndexes :: "xlsxPivotTableDefinition \<Rightarrow> int list" where
  "colFieldIndexes pt = (case pt_ColFields pt of None \<Rightarrow> [] | Some cf \<Rightarrow> map fld_X (cf_Field cf))"

definition pageFieldIndexes :: "xlsxPivotTableDefinition \<Rightarrow> int list" where
  "pageFieldIndexes pt =
     (case pt_PageFields pt of None \<Rightarrow> [] | Some pgs \<Rightarrow> map pg_Fld (pgs_PageField pgs))"

definition dataFieldIndexes :: "xlsxPivotTableDefinition \<Rightarrow> int list" where
  "dataFieldIndexes pt =
     (case pt_DataFields pt of None \<Rightarrow> [] | Some dfs \<Rightarrow> map df_Fld (dfs_DataField dfs))"

text \<open>
  Options with entries that name no column of the header row, and options with two data
  fields.
\<close>

definition unmatchedOptions :: PivotTableOption where
  "unmatchedOptions =
     exampleOptions
       \<lparr>Rows := [fieldNamed ''Bogus'', fieldNamed ''Year'', fieldNamed ''Month''],
        Filter := [fieldNamed ''Nope'', fieldNamed ''Region'']\<rparr>"

definition twoDataOptions :: PivotTableOption where
  "twoDataOptions = exampleOptions\<lparr>Data := [fieldNamed ''Sales'', fieldNamed ''Year'']\<rparr>"

text \<open>
  A field is itemized when the Rows list declares its name and the first entry that does
  has \<open>DefaultSubtotal\<close> false, or the Columns list does and its first entry that does has
  \<open>DefaultSubtotal\<close> false.
\<close>

definition itemized :: "PivotTableOption \<Rightarrow> string \<Rightarrow> bool" where
  "itemized opts name =
     ((case find (\<lambda>fld. PivotTableField.Data fld = name) (Rows opts) of
         None \<Rightarrow> False | Some fld \<Rightarrow> \<not> DefaultSubtotal fld) \<or>
      (case find (\<lambda>fld. PivotTableField.Data fld = name) (Columns opts) of
         None \<Rightarrow> False | Some fld \<Rightarrow> \<not> DefaultSubtotal fld))"

text \<open>The options of the example with \<^verbatim>\<open>Region\<close>, its filter field, as the only column field.\<close>

definition pageColumnOptions :: PivotTableOption where
  "pageColumnOptions = exampleOptions\<lparr>Columns := [fieldNamed ''Region'']\<rparr>"



text \<open>
  The display name that a list of fields gives to a name: that of the first entry that
  declares it, cut to the maximum length, and the empty string when no entry does.
\<close>

definition displayNameIn :: "PivotTableField list \<Rightarrow> string \<Rightarrow> string" where
  "displayNameIn flds name =
     (case find (\<lambda>fld. PivotTableField.Data fld = name) flds of
        None \<Rightarrow> []
      | Some fld \<Rightarrow> take MaxFieldLength (Name fld))"

text \<open>
  The options of the example, the filter field \<^verbatim>\<open>Region\<close> named \<^verbatim>\<open>Area\<close> and declared as a
  column field as well, there named \<^verbatim>\<open>ColName\<close>.
\<close>

definition columnNamedFilterOptions :: PivotTableOption where
  "columnNamedFilterOptions =
     exampleOptions
       \<lparr>Filter := [(fieldNamed ''Region'')\<lparr>Name := ''Area''\<rparr>],
        Columns := [(fieldNamed ''Region'')\<lparr>Name := ''ColName''\<rparr>, fieldNamed ''Type'']\<rparr>"

text \<open>
  Options whose first filter entry and first data entry name no column of the header row,
  and the page and data sections of a persisted table definition.
\<close>

definition leakOptions :: PivotTableOption where
  "leakOptions =
     exampleOptions
       \<lparr>Filter := [(fieldNamed ''Nope'')\<lparr>Name := ''N1''\<rparr>, (fieldNamed ''Region'')\<lparr>Name := ''Area''\<rparr>],
        Data := [(fieldNamed ''Bogus'')\<lparr>Name := ''X'', Subtotal := ''max''\<rparr>,
                 (fieldNamed ''Sales'')\<lparr>Name := ''Summarize'', Subtotal := ''Count''\<rparr>]\<rparr>"

definition axisSections :: "part \<Rightarrow> xlsxPageFields option \<times> xlsxDataFields option" where
  "axisSections p =
     (case p of PivotTablePart pt \<Rightarrow> (pt_PageFields pt, pt_DataFields pt) | _ \<Rightarrow> (None, None))"

subsection \<open>Validation\<close>

text \<open>
  The data range that is parsed, in the words of the specification: the target of the
  defined name when the literal data range is a defined name in the scope of the placement
  sheet, the literal range otherwise.
\<close>

definition dataRange_spec :: "Collab \<Rightarrow> PivotTableOption \<Rightarrow> string \<Rightarrow> string" where
  "dataRange_spec c opts sheet =
     (if getDefinedNameRefTo c (DataRange opts) sheet = [] then DataRange opts
      else getDefinedNameRefTo c (DataRange opts) sheet)"

text \<open>
  Options that fail one validation step each: a placement range of one cell, a data range
  of no area, a data range on a sheet the workbook does not have, a placement range on a
  sheet the workbook does not have.
\<close>

definition badPlacement :: PivotTableOption where
  "badPlacement = exampleOptions\<lparr>PivotTableRange := ''Sheet1!$G$2''\<rparr>"

definition badData :: PivotTableOption where
  "badData = exampleOptions\<lparr>DataRange := ''Sheet1!$A$1:$A$1''\<rparr>"

definition missingDataSheet :: PivotTableOption where
  "missingDataSheet = exampleOptions\<lparr>DataRange := ''Sheet2!$A$1:$E$31''\<rparr>"

definition missingPlacementSheet :: PivotTableOption where
  "missingPlacementSheet = exampleOptions\<lparr>PivotTableRange := ''Sheet9!$G$2:$M$34''\<rparr>"

subsection \<open>Sequence numbers and registry IDs\<close>







section \<open>Range normalization\<close>

lemma Split_not_Nil: "Split s sep \<noteq> []"
  by (induction s) (auto split: list.splits)

lemma length_Split: "length (Split s sep) = Suc (count_list s sep)"
  by (induction s) (auto split: list.splits simp: Split_not_Nil)

lemma areaRefToCoordinates_spec_error:
  "areaRefToCoordinates_spec s = Inl e \<Longrightarrow> e = ErrParameterInvalid"
  by (auto simp: areaRefToCoordinates_spec_def cellNameToCoordinates_def Let_def
      split: list.splits sum.splits if_splits prod.splits)

lemma parse_A1_E31: "areaRefToCoordinates_spec ''A1:E31'' = Inr (1, 1, 5, 31)"
  by code_simp

lemma parse_A31_E1: "areaRefToCoordinates_spec ''A31:E1'' = Inr (1, 31, 5, 1)"
  by code_simp

lemma parse_C1_C1: "areaRefToCoordinates_spec ''C1:C1'' = Inr (3, 1, 3, 1)"
  by code_simp

lemma parse_G2_M34: "areaRefToCoordinates_spec ''G2:M34'' = Inr (7, 2, 13, 34)"
  by code_simp

text \<open>
  C5. Two range strings on the same sheet whose addresses parse to the same two columns
  and the same two rows, each pair in either order and the two orders chosen
  independently, normalize to the same box \<open>(x1, y1, x2, y2)\<close>, which has \<open>x1 \<le> x2\<close> and
  \<open>y1 \<le> y2\<close>: the smaller column, the smaller row, the larger column, the larger row.
\<close>

theorem adjustRange_swap:
  assumes R: "Split R (CHR ''!'') = [sheet, ref]"
    and R': "Split R' (CHR ''!'') = [sheet, ref']"
    and p: "areaRefToCoordinates c (RemoveAll (CHR ''$'') ref) = Inr (a, b, p, q)"
    and p': "areaRefToCoordinates c (RemoveAll (CHR ''$'') ref') = Inr (a', b', p', q')"
    and cols: "(a' = a \<and> p' = p) \<or> (a' = p \<and> p' = a)"
    and rows: "(b' = b \<and> q' = q) \<or> (b' = q \<and> q' = b)"
    and valid: "a \<noteq> p \<or> b \<noteq> q"
  shows "adjustRange c R = (sheet, [min a p, min b q, max a p, max b q], None) \<and>
         adjustRange c R' = adjustRange c R"
proof -
  have ne: "R \<noteq> []" "R' \<noteq> []" using R R' by auto
  have box: "adjustRange c R = (sheet, [min a p, min b q, max a p, max b q], None)"
    using ne R p valid by (auto simp: adjustRange_def Let_def min_def max_def)
  have valid': "a' \<noteq> p' \<or> b' \<noteq> q'" using cols rows valid by auto
  have box': "adjustRange c R' = (sheet, [min a' p', min b' q', max a' p', max b' q'], None)"
    using ne R' p' valid' by (auto simp: adjustRange_def Let_def min_def max_def)
  have "min a' p' = min a p" "max a' p' = max a p" using cols by auto
  moreover have "min b' q' = min b q" "max b' q' = max b q" using rows by auto
  ultimately show ?thesis using box box' by simp
qed

theorem adjustRange_swap_witness:
  "adjustRange exampleCollab ''Sheet1!$A$1:$E$31'' = (''Sheet1'', [1, 1, 5, 31], None) \<and>
   adjustRange exampleCollab ''Sheet1!$A$31:$E$1'' = adjustRange exampleCollab ''Sheet1!$A$1:$E$31''"
  using adjustRange_swap [of "''Sheet1!$A$1:$E$31''" "''Sheet1''" "''$A$1:$E$31''"
      "''Sheet1!$A$31:$E$1''" "''$A$31:$E$1''" exampleCollab 1 1 5 31 1 31 5 1]
  by (simp add: exampleCollab_def RemoveAll_def parse_A1_E31 parse_A31_E1)

lemma parse_A1_B:
  "areaRefToCoordinates_cellError ''A1:B'' =
     Inl (CollabError ''cannot convert cell B to coordinates'')"
  by code_simp

text \<open>
  C6, as the code has it. The error of range normalization, for any address parser:
  \<open>MissingParameter\<close> on the empty string; \<open>InvalidParameter\<close> when the string does not hold
  exactly one \<open>!\<close>; the error of the parser itself, returned as it is, when the address after
  the \<open>!\<close> (with every \<open>$\<close> dropped) does not parse; \<open>InvalidParameter\<close> when the two corners
  coincide; and no error on every other string.
\<close>

theorem adjustRange_errors:
  "snd (snd (adjustRange c r)) =
     (if r = [] then Some ErrParameterRequired
      else if count_list r (CHR ''!'') \<noteq> 1 then Some ErrParameterInvalid
      else (case areaRefToCoordinates c (RemoveAll (CHR ''$'') (Split r (CHR ''!'') ! 1)) of
              Inl e \<Rightarrow> Some e
            | Inr (x1, y1, x2, y2) \<Rightarrow>
                if x1 = x2 \<and> y1 = y2 then Some ErrParameterInvalid else None))"
proof (cases "r = []")
  case True
  then show ?thesis by (simp add: adjustRange_def)
next
  case nonempty: False
  show ?thesis
  proof (cases "count_list r (CHR ''!'') = 1")
    case False
    with nonempty show ?thesis by (simp add: adjustRange_def length_Split)
  next
    case True
    then have two: "length (Split r (CHR ''!'')) = 2" by (simp add: length_Split)
    show ?thesis
    proof (cases "areaRefToCoordinates c (RemoveAll (CHR ''$'') (Split r (CHR ''!'') ! 1))")
      case (Inl e)
      with nonempty True two show ?thesis by (simp add: adjustRange_def Let_def)
    next
      case (Inr b)
      obtain x1 y1 x2 y2 where "b = (x1, y1, x2, y2)" by (cases b) auto
      with Inr nonempty True two show ?thesis
        by (simp add: adjustRange_def Let_def split: prod.splits)
    qed
  qed
qed

theorem adjustRange_errors_witness:
  "snd (snd (adjustRange exampleCollab [])) = Some ErrParameterRequired \<and>
   snd (snd (adjustRange exampleCollab ''Sheet1$A$1:$E$31'')) = Some ErrParameterInvalid \<and>
   snd (snd (adjustRange exampleCollab ''Sheet1!$C$1:$C$1'')) = Some ErrParameterInvalid \<and>
   snd (snd (adjustRange exampleCollab ''Sheet1!$A$1:$E$31'')) = None \<and>
   snd (snd (adjustRange cellErrorCollab ''Sheet1!A1:B'')) =
     Some (CollabError ''cannot convert cell B to coordinates'')"
  using adjustRange_errors [of exampleCollab "[]"]
    adjustRange_errors [of exampleCollab "''Sheet1$A$1:$E$31''"]
    adjustRange_errors [of exampleCollab "''Sheet1!$C$1:$C$1''"]
    adjustRange_errors [of exampleCollab "''Sheet1!$A$1:$E$31''"]
    adjustRange_errors [of cellErrorCollab "''Sheet1!A1:B''"]
  by (simp add: exampleCollab_def cellErrorCollab_def RemoveAll_def parse_A1_E31 parse_C1_C1
      parse_A1_B)

text \<open>
  C6, as the claim states it, fails on an address that does not parse: with a parser that
  reports a malformed cell name with an error of its own, the range \<^verbatim>\<open>Sheet1!A1:B\<close> fails with
  that error, which is not \<open>InvalidParameter\<close>.
\<close>

theorem adjustRange_parse_error_counterexample:
  "adjustRange cellErrorCollab ''Sheet1!A1:B'' =
     (''Sheet1'', [], Some (CollabError ''cannot convert cell B to coordinates'')) \<and>
   snd (snd (adjustRange cellErrorCollab ''Sheet1!A1:B'')) \<noteq> Some ErrParameterInvalid"
  by (simp add: adjustRange_def cellErrorCollab_def exampleCollab_def RemoveAll_def Let_def
      parse_A1_B)

section \<open>The pivot fields\<close>

lemmas example_defs =
  overlapOptions_def exampleOptions_def noOptions_def fieldNamed_def zeroPivotTableField_def

lemma inPivotTableField_from_declared:
  "0 \<le> idx \<Longrightarrow> (inPivotTableField_from idx a x \<noteq> - 1) = declared x a"
proof (induction a arbitrary: idx)
  case Nil
  then show ?case by (simp add: declared_def)
next
  case (Cons n ns)
  from Cons.prems have "0 \<le> idx + 1" by simp
  from Cons.IH [OF this] Cons.prems show ?case by (auto simp: declared_def)
qed

lemma inPivotTableField_declared: "(inPivotTableField a x \<noteq> - 1) = declared x a"
  by (simp add: inPivotTableField_def inPivotTableField_from_declared)

lemma find_declared:
  "(find (\<lambda>fld. PivotTableField.Data fld = name) flds = None) = (\<not> declared name flds)"
  by (auto simp: find_None_iff declared_def)

lemma getPivotTableFieldName_undeclared:
  "\<not> declared name flds \<Longrightarrow> getPivotTableFieldName name flds = []"
proof -
  assume nd: "\<not> declared name flds"
  have "find (\<lambda>(fld, fieldName). PivotTableField.Data fld = name)
          (zip flds (getPivotTableFieldsName flds)) = None"
    using nd by (auto simp: find_None_iff declared_def dest!: set_zip_leftD)
  then show ?thesis by (simp add: getPivotTableFieldName_def)
qed

lemma addPivotFields_list:
  "getPivotFieldsOrder c opts = (order, None) \<Longrightarrow>
   pfs_PivotField (pt_PivotFields (fst (addPivotFields c pt opts))) =
     pfs_PivotField (pt_PivotFields pt) @ map (pivotFieldOf opts) order"
  by (simp add: addPivotFields_def)

lemma pivotFieldOf_axis:
  "pf_Axis (pivotFieldOf opts name) =
     (if declared name (Rows opts) then ''axisRow''
      else if declared name (Filter opts) then ''axisPage''
      else if declared name (Columns opts) then ''axisCol''
      else [])"
  by (simp add: pivotFieldOf_def inPivotTableField_declared emptyPivotField_def Let_def
      split: prod.splits)

lemma pivotFieldOf_dataField:
  "pf_DataField (pivotFieldOf opts name) = declared name (Data opts)"
  by (simp add: pivotFieldOf_def inPivotTableField_declared emptyPivotField_def Let_def
      split: prod.splits)

lemma pivotFieldOf_empty:
  "\<not> declared name (Rows opts) \<Longrightarrow> \<not> declared name (Filter opts) \<Longrightarrow>
   \<not> declared name (Columns opts) \<Longrightarrow> \<not> declared name (Data opts) \<Longrightarrow>
   pivotFieldOf opts name = emptyPivotField"
  by (simp add: pivotFieldOf_def inPivotTableField_declared)

lemma pivotFieldOf_filter_name:
  "\<not> declared name (Rows opts) \<Longrightarrow> declared name (Filter opts) \<Longrightarrow>
   pf_Name (pivotFieldOf opts name) = getPivotTableFieldName name (Columns opts)"
  by (simp add: pivotFieldOf_def inPivotTableField_declared)

text \<open>The header row of the example, read through the collaborators.\<close>

lemma exampleOrder:
  "getPivotFieldsOrder exampleCollab exampleOptions =
     ([''Month'', ''Year'', ''Type'', ''Sales'', ''Region''], None)"
  by code_simp

lemma overlapOrder:
  "getPivotFieldsOrder exampleCollab overlapOptions =
     ([''Month'', ''Year'', ''Type'', ''Sales'', ''Region''], None)"
  by code_simp

lemma namedFilterOrder:
  "getPivotFieldsOrder exampleCollab namedFilterOptions =
     ([''Month'', ''Year'', ''Type'', ''Sales'', ''Region''], None)"
  by code_simp

text \<open>Each builder of an axis list leaves the pivot fields as they are.\<close>

lemma fold_frame: "(\<And>x p. g (step x p) = g p) \<Longrightarrow> g (fold step xs p) = g p"
  by (induction xs arbitrary: p) auto

lemma appendRowField_PivotFields: "pt_PivotFields (appendRowField x pt) = pt_PivotFields pt"
  by (simp add: appendRowField_def Let_def)

lemma appendPageField_PivotFields: "pt_PivotFields (appendPageField x pt) = pt_PivotFields pt"
  by (simp add: appendPageField_def Let_def)

lemma appendDataField_PivotFields: "pt_PivotFields (appendDataField x pt) = pt_PivotFields pt"
  by (simp add: appendDataField_def Let_def)

lemma addPivotRowFields_PivotFields:
  "pt_PivotFields (fst (addPivotRowFields c pt opts)) = pt_PivotFields pt"
  by (simp add: addPivotRowFields_def Let_def appendRowField_PivotFields
      fold_frame [where g = pt_PivotFields] split: prod.splits option.splits)

lemma addPivotColFields_PivotFields:
  "pt_PivotFields (fst (addPivotColFields c pt opts)) = pt_PivotFields pt"
  by (simp add: addPivotColFields_def Let_def split: prod.splits option.splits)

lemma addPivotPageFields_PivotFields:
  "pt_PivotFields (fst (addPivotPageFields c pt opts)) = pt_PivotFields pt"
  by (simp add: addPivotPageFields_def Let_def appendPageField_PivotFields
      fold_frame [where g = pt_PivotFields] split: prod.splits option.splits)

lemma addPivotDataFields_PivotFields:
  "pt_PivotFields (fst (addPivotDataFields c pt opts)) = pt_PivotFields pt"
  by (simp add: addPivotDataFields_def Let_def appendDataField_PivotFields
      fold_frame [where g = pt_PivotFields] split: prod.splits option.splits)

lemma pivotTableDefinition_PivotField:
  "getPivotFieldsOrder c opts = (order, None) \<Longrightarrow>
   pfs_PivotField (pt_PivotFields (pivotTableDefinition c cacheID pivotTableID opts coordinates)) =
     map (pivotFieldOf opts) order"
  by (simp add: pivotTableDefinition_def Let_def addPivotRowFields_PivotFields
      addPivotColFields_PivotFields addPivotPageFields_PivotFields
      addPivotDataFields_PivotFields addPivotFields_list)

text \<open>
  C1. When the header row resolves to the field order \<open>order\<close>, the pivot field that the table
  definition holds at position \<open>i\<close> is classified by the first of Rows, Filter, Columns that
  declares the name \<open>order ! i\<close> (\<open>axisRow\<close>, \<open>axisPage\<close>, \<open>axisCol\<close>), and has no axis when none of
  the three does, the name being then a data field only or unused; its data-field flag is
  set exactly when the Data list declares the name, whichever axis won; and a name that no
  list declares has the empty pivot field, without axis and without items.
\<close>

theorem pivot_field_classification:
  assumes order: "getPivotFieldsOrder c opts = (order, None)" and i: "i < length order"
  shows
    "let pf = pfs_PivotField
                (pt_PivotFields (pivotTableDefinition c cacheID pivotTableID opts coordinates)) ! i;
         name = order ! i
     in pf_Axis pf =
          (if declared name (Rows opts) then ''axisRow''
           else if declared name (Filter opts) then ''axisPage''
           else if declared name (Columns opts) then ''axisCol''
           else []) \<and>
        pf_DataField pf = declared name (Data opts) \<and>
        (\<not> declared name (Rows opts) \<and> \<not> declared name (Filter opts) \<and>
         \<not> declared name (Columns opts) \<and> \<not> declared name (Data opts) \<longrightarrow>
         pf = emptyPivotField)"
  using i
  by (simp add: pivotTableDefinition_PivotField [OF order] Let_def pivotFieldOf_axis
      pivotFieldOf_dataField pivotFieldOf_empty)

theorem pivot_field_classification_witness:
  "pf_Axis (pfs_PivotField (pt_PivotFields
      (pivotTableDefinition exampleCollab 2 1 overlapOptions [7, 2, 13, 34])) ! 0) = ''axisRow'' \<and>
   pf_DataField (pfs_PivotField (pt_PivotFields
      (pivotTableDefinition exampleCollab 2 1 overlapOptions [7, 2, 13, 34])) ! 0) \<and>
   pf_Axis (pfs_PivotField (pt_PivotFields
      (pivotTableDefinition exampleCollab 2 1 overlapOptions [7, 2, 13, 34])) ! 4) = ''axisPage'' \<and>
   pfs_PivotField (pt_PivotFields
      (pivotTableDefinition exampleCollab 2 1 overlapOptions [7, 2, 13, 34])) ! 1 = emptyPivotField"
  using pivot_field_classification [OF overlapOrder, of 0 2 1 "[7, 2, 13, 34]"]
    pivot_field_classification [OF overlapOrder, of 4 2 1 "[7, 2, 13, 34]"]
    pivot_field_classification [OF overlapOrder, of 1 2 1 "[7, 2, 13, 34]"]
  by (simp add: Let_def declared_def example_defs)

lemma getPivotTableFieldName_displayName:
  "getPivotTableFieldName name flds = displayNameIn flds name"
proof -
  have "(case find (\<lambda>(fld, fieldName). PivotTableField.Data fld = name)
                (zip flds (map g flds)) of
           None \<Rightarrow> [] | Some (fld, fieldName) \<Rightarrow> fieldName) =
        (case find (\<lambda>fld. PivotTableField.Data fld = name) flds of
           None \<Rightarrow> [] | Some fld \<Rightarrow> g fld)" for g :: "PivotTableField \<Rightarrow> string"
    by (induction flds) simp_all
  then show ?thesis
    by (simp add: getPivotTableFieldName_def getPivotTableFieldsName_def displayNameIn_def
        split: option.splits)
qed

lemma columnNamedFilterOrder:
  "getPivotFieldsOrder exampleCollab columnNamedFilterOptions =
     ([''Month'', ''Year'', ''Type'', ''Sales'', ''Region''], None)"
  by code_simp

text \<open>
  C9. When the header row resolves to the field order \<open>order\<close> and the name \<open>order ! i\<close> is
  declared in the Filter list and not in the Rows list, the pivot field at position \<open>i\<close> is on
  the page axis and its name is looked up in the Columns list: it is the display name,
  cut to the maximum length, of the first Columns entry that declares the name, and it is
  empty when the Columns list does not declare the name, whatever display name the Filter
  list gives.
\<close>

theorem filter_field_name:
  assumes order: "getPivotFieldsOrder c opts = (order, None)" and i: "i < length order"
    and filter: "declared (order ! i) (Filter opts)" and rows: "\<not> declared (order ! i) (Rows opts)"
  shows
    "let pf = pfs_PivotField
                (pt_PivotFields (pivotTableDefinition c cacheID pivotTableID opts coordinates)) ! i
     in pf_Axis pf = ''axisPage'' \<and>
        pf_Name pf = displayNameIn (Columns opts) (order ! i) \<and>
        (\<not> declared (order ! i) (Columns opts) \<longrightarrow> pf_Name pf = [])"
  using i filter rows
  by (simp add: pivotTableDefinition_PivotField [OF order] Let_def pivotFieldOf_axis
      pivotFieldOf_filter_name getPivotTableFieldName_undeclared
      getPivotTableFieldName_displayName [symmetric])

theorem filter_field_name_witness:
  "Name (hd (Filter namedFilterOptions)) = ''Area'' \<and>
   pf_Axis (pfs_PivotField (pt_PivotFields
      (pivotTableDefinition exampleCollab 2 1 namedFilterOptions [7, 2, 13, 34])) ! 4) = ''axisPage'' \<and>
   pf_Name (pfs_PivotField (pt_PivotFields
      (pivotTableDefinition exampleCollab 2 1 namedFilterOptions [7, 2, 13, 34])) ! 4) = [] \<and>
   Name (hd (Filter columnNamedFilterOptions)) = ''Area'' \<and>
   pf_Name (pfs_PivotField (pt_PivotFields
      (pivotTableDefinition exampleCollab 2 1 columnNamedFilterOptions [7, 2, 13, 34])) ! 4) =
     ''ColName''"
  using filter_field_name [OF namedFilterOrder, of 4 2 1 "[7, 2, 13, 34]"]
    filter_field_name [OF columnNamedFilterOrder, of 4 2 1 "[7, 2, 13, 34]"]
  by (simp add: Let_def declared_def namedFilterOptions_def columnNamedFilterOptions_def
      example_defs displayNameIn_def MaxFieldLength_def)

section \<open>The axis field lists\<close>

lemma inStrSlice_from_eq:
  "inStrSlice_from idx a x = (if x \<in> set a then idx + int (firstIndex a x) else - 1)"
  by (induction a arbitrary: idx) (auto simp: firstIndex_def)

lemma inStrSlice_eq:
  "inStrSlice a x = (if x \<in> set a then int (firstIndex a x) else - 1)"
  by (simp add: inStrSlice_def inStrSlice_from_eq)

lemma collectFieldsIndex_eq: "collectFieldsIndex orders flds = matchingPositions orders flds"
  by (induction flds) (auto simp: matchingPositions_def inStrSlice_eq Let_def)

lemma getPivotFieldsIndex_eq:
  "getPivotFieldsOrder c opts = (orders, None) \<Longrightarrow>
   getPivotFieldsIndex c flds opts = (matchingPositions orders flds, None)"
  by (simp add: getPivotFieldsIndex_def collectFieldsIndex_eq)

lemma fold_appendRowField:
  "pt_RowFields (fold appendRowField xs pt) =
   (if xs = [] then pt_RowFields pt
    else Some (let rf = (case pt_RowFields pt of None \<Rightarrow> \<lparr>rf_Count = 0, rf_Field = []\<rparr> | Some rf \<Rightarrow> rf)
               in rf\<lparr>rf_Field := rf_Field rf @ map (\<lambda>i. \<lparr>fld_X = i\<rparr>) xs\<rparr>))"
  by (induction xs arbitrary: pt) (auto simp: appendRowField_def Let_def split: option.splits)

lemma fold_appendPageField:
  "pt_PageFields (fold (\<lambda>idx. appendPageField (mk idx)) xs pt) =
   (if xs = [] then pt_PageFields pt
    else Some (let pgs = (case pt_PageFields pt of
                            None \<Rightarrow> \<lparr>pgs_Count = 0, pgs_PageField = []\<rparr> | Some pgs \<Rightarrow> pgs)
               in pgs\<lparr>pgs_PageField := pgs_PageField pgs @ map mk xs\<rparr>))"
  by (induction xs arbitrary: pt) (auto simp: appendPageField_def Let_def split: option.splits)

lemma fold_appendDataField:
  "pt_DataFields (fold (\<lambda>idx. appendDataField (mk idx)) xs pt) =
   (if xs = [] then pt_DataFields pt
    else Some (let dfs = (case pt_DataFields pt of
                            None \<Rightarrow> \<lparr>dfs_Count = 0, dfs_DataField = []\<rparr> | Some dfs \<Rightarrow> dfs)
               in dfs\<lparr>dfs_DataField := dfs_DataField dfs @ map mk xs\<rparr>))"
  by (induction xs arbitrary: pt) (auto simp: appendDataField_def Let_def split: option.splits)


lemma addPivotRowFields_result:
  "getPivotFieldsOrder c opts = (orders, None) \<Longrightarrow> pt_RowFields pt = None \<Longrightarrow>
   pt_RowFields (fst (addPivotRowFields c pt opts)) =
     (let idx = matchingPositions orders (Rows opts)
      in if idx = [] then None
         else Some \<lparr>rf_Count = int (length idx), rf_Field = map (\<lambda>i. \<lparr>fld_X = i\<rparr>) idx\<rparr>)"
  by (simp add: addPivotRowFields_def getPivotFieldsIndex_eq Let_def fold_appendRowField)

lemma addPivotPageFields_result:
  "getPivotFieldsOrder c opts = (orders, None) \<Longrightarrow> pt_PageFields pt = None \<Longrightarrow>
   pt_PageFields (fst (addPivotPageFields c pt opts)) =
     (let idx = matchingPositions orders (Filter opts);
          names = getPivotTableFieldsName (Filter opts)
      in if idx = [] then None
         else Some \<lparr>pgs_Count = int (length idx),
                    pgs_PageField =
                      map (\<lambda>k. \<lparr>pg_Name = names ! k, pg_Fld = idx ! k\<rparr>) [0 ..< length idx]\<rparr>)"
  by (simp add: addPivotPageFields_def getPivotFieldsIndex_eq Let_def fold_appendPageField)

lemma addPivotDataFields_result:
  "getPivotFieldsOrder c opts = (orders, None) \<Longrightarrow> pt_DataFields pt = None \<Longrightarrow>
   pt_DataFields (fst (addPivotDataFields c pt opts)) =
     (let idx = matchingPositions orders (Data opts);
          names = getPivotTableFieldsName (Data opts);
          subtotals = getPivotTableFieldsSubtotal (Data opts)
      in if idx = [] then None
         else Some \<lparr>dfs_Count = int (length idx),
                    dfs_DataField =
                      map (\<lambda>k. \<lparr>df_Name = names ! k, df_Fld = idx ! k, df_Subtotal = subtotals ! k\<rparr>)
                        [0 ..< length idx]\<rparr>)"
  by (simp add: addPivotDataFields_def getPivotFieldsIndex_eq Let_def fold_appendDataField)

lemma addPivotColFields_result:
  "pt_ColFields (fst (addPivotColFields c pt opts)) =
     (if Columns opts = [] then
        (if length (Data opts) \<le> 1 then pt_ColFields pt
         else Some \<lparr>cf_Count = 1, cf_Field = [\<lparr>fld_X = - 2\<rparr>]\<rparr>)
      else
        (case getPivotFieldsOrder c opts of
           (orders, Some err) \<Rightarrow> Some \<lparr>cf_Count = 0, cf_Field = []\<rparr>
         | (orders, None) \<Rightarrow>
             (let idx = matchingPositions orders (Columns opts);
                  flds = map (\<lambda>i. \<lparr>fld_X = i\<rparr>) idx @
                         (if 1 < length (Data opts) then [\<lparr>fld_X = - 2\<rparr>] else [])
              in Some \<lparr>cf_Count = int (length flds), cf_Field = flds\<rparr>)))"
  by (auto simp: addPivotColFields_def getPivotFieldsIndex_def collectFieldsIndex_eq Let_def
      split: prod.splits option.splits)

text \<open>Each builder leaves the sections of the other axes as they are.\<close>

lemma appendRowField_frame:
  "pt_ColFields (appendRowField x pt) = pt_ColFields pt"
  "pt_PageFields (appendRowField x pt) = pt_PageFields pt"
  "pt_DataFields (appendRowField x pt) = pt_DataFields pt"
  by (simp_all add: appendRowField_def Let_def)

lemma appendPageField_frame:
  "pt_RowFields (appendPageField x pt) = pt_RowFields pt"
  "pt_ColFields (appendPageField x pt) = pt_ColFields pt"
  "pt_DataFields (appendPageField x pt) = pt_DataFields pt"
  by (simp_all add: appendPageField_def Let_def)

lemma appendDataField_frame:
  "pt_RowFields (appendDataField x pt) = pt_RowFields pt"
  "pt_ColFields (appendDataField x pt) = pt_ColFields pt"
  "pt_PageFields (appendDataField x pt) = pt_PageFields pt"
  by (simp_all add: appendDataField_def Let_def)

lemma addPivotFields_frame:
  "pt_RowFields (fst (addPivotFields c pt opts)) = pt_RowFields pt"
  "pt_ColFields (fst (addPivotFields c pt opts)) = pt_ColFields pt"
  "pt_PageFields (fst (addPivotFields c pt opts)) = pt_PageFields pt"
  "pt_DataFields (fst (addPivotFields c pt opts)) = pt_DataFields pt"
  by (simp_all add: addPivotFields_def split: prod.splits option.splits)

lemma addPivotRowFields_frame:
  "pt_ColFields (fst (addPivotRowFields c pt opts)) = pt_ColFields pt"
  "pt_PageFields (fst (addPivotRowFields c pt opts)) = pt_PageFields pt"
  "pt_DataFields (fst (addPivotRowFields c pt opts)) = pt_DataFields pt"
  by (simp_all add: addPivotRowFields_def Let_def appendRowField_frame
      fold_frame [where g = pt_ColFields] fold_frame [where g = pt_PageFields]
      fold_frame [where g = pt_DataFields] split: prod.splits option.splits)

lemma addPivotColFields_frame:
  "pt_RowFields (fst (addPivotColFields c pt opts)) = pt_RowFields pt"
  "pt_PageFields (fst (addPivotColFields c pt opts)) = pt_PageFields pt"
  "pt_DataFields (fst (addPivotColFields c pt opts)) = pt_DataFields pt"
  by (simp_all add: addPivotColFields_def Let_def split: prod.splits option.splits)

lemma addPivotPageFields_frame:
  "pt_RowFields (fst (addPivotPageFields c pt opts)) = pt_RowFields pt"
  "pt_ColFields (fst (addPivotPageFields c pt opts)) = pt_ColFields pt"
  "pt_DataFields (fst (addPivotPageFields c pt opts)) = pt_DataFields pt"
  by (simp_all add: addPivotPageFields_def Let_def appendPageField_frame
      fold_frame [where g = pt_RowFields] fold_frame [where g = pt_ColFields]
      fold_frame [where g = pt_DataFields] split: prod.splits option.splits)

lemma addPivotDataFields_frame:
  "pt_RowFields (fst (addPivotDataFields c pt opts)) = pt_RowFields pt"
  "pt_ColFields (fst (addPivotDataFields c pt opts)) = pt_ColFields pt"
  "pt_PageFields (fst (addPivotDataFields c pt opts)) = pt_PageFields pt"
  by (simp_all add: addPivotDataFields_def Let_def appendDataField_frame
      fold_frame [where g = pt_RowFields] fold_frame [where g = pt_ColFields]
      fold_frame [where g = pt_PageFields] split: prod.splits option.splits)

lemmas builder_frames =
  addPivotFields_frame addPivotRowFields_frame addPivotColFields_frame
  addPivotPageFields_frame addPivotDataFields_frame

lemma pivotTableDefinition_RowFields:
  "getPivotFieldsOrder c opts = (orders, None) \<Longrightarrow>
   pt_RowFields (pivotTableDefinition c cacheID pivotTableID opts coordinates) =
     (let idx = matchingPositions orders (Rows opts)
      in if idx = [] then None
         else Some \<lparr>rf_Count = int (length idx), rf_Field = map (\<lambda>i. \<lparr>fld_X = i\<rparr>) idx\<rparr>)"
  unfolding pivotTableDefinition_def Let_def
  by (simp add: builder_frames addPivotRowFields_result [unfolded Let_def])

lemma pivotTableDefinition_PageFields:
  "getPivotFieldsOrder c opts = (orders, None) \<Longrightarrow>
   pt_PageFields (pivotTableDefinition c cacheID pivotTableID opts coordinates) =
     (let idx = matchingPositions orders (Filter opts);
          names = getPivotTableFieldsName (Filter opts)
      in if idx = [] then None
         else Some \<lparr>pgs_Count = int (length idx),
                    pgs_PageField =
                      map (\<lambda>k. \<lparr>pg_Name = names ! k, pg_Fld = idx ! k\<rparr>) [0 ..< length idx]\<rparr>)"
  unfolding pivotTableDefinition_def Let_def
  by (simp add: builder_frames addPivotPageFields_result [unfolded Let_def])

lemma pivotTableDefinition_DataFields:
  "getPivotFieldsOrder c opts = (orders, None) \<Longrightarrow>
   pt_DataFields (pivotTableDefinition c cacheID pivotTableID opts coordinates) =
     (let idx = matchingPositions orders (Data opts);
          names = getPivotTableFieldsName (Data opts);
          subtotals = getPivotTableFieldsSubtotal (Data opts)
      in if idx = [] then None
         else Some \<lparr>dfs_Count = int (length idx),
                    dfs_DataField =
                      map (\<lambda>k. \<lparr>df_Name = names ! k, df_Fld = idx ! k, df_Subtotal = subtotals ! k\<rparr>)
                        [0 ..< length idx]\<rparr>)"
  unfolding pivotTableDefinition_def Let_def
  by (simp add: builder_frames addPivotDataFields_result [unfolded Let_def])

lemma pivotTableDefinition_ColFields:
  "pt_ColFields (pivotTableDefinition c cacheID pivotTableID opts coordinates) =
     (if Columns opts = [] then
        (if length (Data opts) \<le> 1 then None
         else Some \<lparr>cf_Count = 1, cf_Field = [\<lparr>fld_X = - 2\<rparr>]\<rparr>)
      else
        (case getPivotFieldsOrder c opts of
           (orders, Some err) \<Rightarrow> Some \<lparr>cf_Count = 0, cf_Field = []\<rparr>
         | (orders, None) \<Rightarrow>
             (let idx = matchingPositions orders (Columns opts);
                  flds = map (\<lambda>i. \<lparr>fld_X = i\<rparr>) idx @
                         (if 1 < length (Data opts) then [\<lparr>fld_X = - 2\<rparr>] else [])
              in Some \<lparr>cf_Count = int (length flds), cf_Field = flds\<rparr>)))"
  unfolding pivotTableDefinition_def Let_def
  by (simp add: builder_frames addPivotColFields_result [unfolded Let_def]
      split: prod.splits option.splits)

lemma unmatchedOrder:
  "getPivotFieldsOrder exampleCollab unmatchedOptions =
     ([''Month'', ''Year'', ''Type'', ''Sales'', ''Region''], None)"
  by code_simp

lemma twoDataOrder:
  "getPivotFieldsOrder exampleCollab twoDataOptions =
     ([''Month'', ''Year'', ''Type'', ''Sales'', ''Region''], None)"
  by code_simp

text \<open>
  When the header row resolves to the field order \<open>orders\<close>, the index list of an axis list
  holds the position of each entry whose name occurs in \<open>orders\<close>, in the order of the
  declarations, and nothing for the other entries; no error is returned. The four axis
  sections of the table definition hold exactly these positions (the column section with
  the sentinel \<open>-2\<close> after them when there are several data fields).
\<close>

lemma unmatched_entries_omitted:
  assumes order: "getPivotFieldsOrder c opts = (orders, None)"
  shows
    "getPivotFieldsIndex c flds opts = (matchingPositions orders flds, None) \<and>
     (let pt = pivotTableDefinition c cacheID pivotTableID opts coordinates
      in rowFieldIndexes pt = matchingPositions orders (Rows opts) \<and>
         pageFieldIndexes pt = matchingPositions orders (Filter opts) \<and>
         dataFieldIndexes pt = matchingPositions orders (Data opts) \<and>
         colFieldIndexes pt =
           matchingPositions orders (Columns opts) @ (if 1 < length (Data opts) then [- 2] else []))"
proof -
  have rows: "rowFieldIndexes (pivotTableDefinition c cacheID pivotTableID opts coordinates) =
      matchingPositions orders (Rows opts)"
    by (simp add: rowFieldIndexes_def pivotTableDefinition_RowFields [OF order] Let_def comp_def)
  have pages: "pageFieldIndexes (pivotTableDefinition c cacheID pivotTableID opts coordinates) =
      matchingPositions orders (Filter opts)"
    by (simp add: pageFieldIndexes_def pivotTableDefinition_PageFields [OF order] Let_def
        comp_def map_nth)
  have datas: "dataFieldIndexes (pivotTableDefinition c cacheID pivotTableID opts coordinates) =
      matchingPositions orders (Data opts)"
    by (simp add: dataFieldIndexes_def pivotTableDefinition_DataFields [OF order] Let_def
        comp_def map_nth)
  have cols: "colFieldIndexes (pivotTableDefinition c cacheID pivotTableID opts coordinates) =
      matchingPositions orders (Columns opts) @ (if 1 < length (Data opts) then [- 2] else [])"
    by (simp add: colFieldIndexes_def pivotTableDefinition_ColFields order Let_def comp_def
        matchingPositions_def)
  show ?thesis
    using rows pages datas cols by (simp add: getPivotFieldsIndex_eq [OF order] Let_def)
qed

lemma unmatched_entries_omitted_example:
  "getPivotFieldsIndex exampleCollab (Rows unmatchedOptions) unmatchedOptions = ([1, 0], None) \<and>
   rowFieldIndexes (pivotTableDefinition exampleCollab 2 1 unmatchedOptions [7, 2, 13, 34]) = [1, 0] \<and>
   pageFieldIndexes (pivotTableDefinition exampleCollab 2 1 unmatchedOptions [7, 2, 13, 34]) = [4]"
  using unmatched_entries_omitted [OF unmatchedOrder, where flds = "Rows unmatchedOptions"
      and cacheID = 2 and pivotTableID = 1 and coordinates = "[7, 2, 13, 34]"]
  by (simp add: Let_def matchingPositions_def firstIndex_def unmatchedOptions_def
      exampleOptions_def noOptions_def fieldNamed_def zeroPivotTableField_def)

lemma leakOrder:
  "getPivotFieldsOrder exampleCollab leakOptions =
     ([''Month'', ''Year'', ''Type'', ''Sales'', ''Region''], None)"
  by code_simp

lemma leak_subtotals:
  "getPivotTableFieldsSubtotal (Data leakOptions) = [''max'', ''count'']"
  by code_simp

lemma leak_ok: "snd (AddPivotTable exampleCollab (Some leakOptions) exampleFile) = None"
  by code_simp

text \<open>
  C10. An entry that names no column of the header row is dropped from the index list
  but not from the names and the subtotals that the page and data sections are built
  from: these are read, unfiltered, at the position in the index list. With the filter
  entries \<^verbatim>\<open>Nope\<close> (named \<^verbatim>\<open>N1\<close>) and \<^verbatim>\<open>Region\<close> (named \<^verbatim>\<open>Area\<close>), and the data entries \<^verbatim>\<open>Bogus\<close>
  (named \<^verbatim>\<open>X\<close>, subtotal \<^verbatim>\<open>max\<close>) and \<^verbatim>\<open>Sales\<close> (named \<^verbatim>\<open>Summarize\<close>, subtotal \<^verbatim>\<open>Count\<close>),
  \<^verbatim>\<open>AddPivotTable\<close> succeeds and the table definition it stores has the page field of
  \<^verbatim>\<open>Region\<close> under the name \<^verbatim>\<open>N1\<close> and the data field of \<^verbatim>\<open>Sales\<close> under the name \<^verbatim>\<open>X\<close> with
  the subtotal \<^verbatim>\<open>max\<close>.
\<close>

theorem unmatched_entry_leaks:
  "snd (AddPivotTable exampleCollab (Some leakOptions) exampleFile) = None \<and>
   map_option axisSections
     (map_of (Pkg (fst (AddPivotTable exampleCollab (Some leakOptions) exampleFile)))
        ''xl/pivotTables/pivotTable1.xml'') =
     Some (Some \<lparr>pgs_Count = 1, pgs_PageField = [\<lparr>pg_Name = ''N1'', pg_Fld = 4\<rparr>]\<rparr>,
           Some \<lparr>dfs_Count = 1,
                 dfs_DataField = [\<lparr>df_Name = ''X'', df_Fld = 3, df_Subtotal = ''max''\<rparr>]\<rparr>)"
  by code_simp


text \<open>
  C2. The column-field section of the table definition. With no column declared and more
  than one data field, it is the single sentinel \<open>-2\<close>; with no column declared and at most
  one data field, there is no section; with columns declared, more than one data field and
  a header row that resolves to the field order \<open>orders\<close>, it is the positions of the declared
  columns followed by the sentinel \<open>-2\<close>.
\<close>

theorem column_field_synthesis:
  "let pt = pivotTableDefinition c cacheID pivotTableID opts coordinates
   in (Columns opts = [] \<and> 1 < length (Data opts) \<longrightarrow>
         pt_ColFields pt = Some \<lparr>cf_Count = 1, cf_Field = [\<lparr>fld_X = - 2\<rparr>]\<rparr>) \<and>
      (Columns opts = [] \<and> length (Data opts) \<le> 1 \<longrightarrow> pt_ColFields pt = None) \<and>
      (Columns opts \<noteq> [] \<and> 1 < length (Data opts) \<and>
       getPivotFieldsOrder c opts = (orders, None) \<longrightarrow>
         pt_ColFields pt =
           Some \<lparr>cf_Count = int (length (matchingPositions orders (Columns opts))) + 1,
                 cf_Field =
                   map (\<lambda>i. \<lparr>fld_X = i\<rparr>) (matchingPositions orders (Columns opts)) @
                   [\<lparr>fld_X = - 2\<rparr>]\<rparr>)"
  by (simp add: pivotTableDefinition_ColFields Let_def)


theorem column_field_synthesis_witness:
  "pt_ColFields (pivotTableDefinition exampleCollab 2 1 (twoDataOptions\<lparr>Columns := []\<rparr>)
      [7, 2, 13, 34]) = Some \<lparr>cf_Count = 1, cf_Field = [\<lparr>fld_X = - 2\<rparr>]\<rparr> \<and>
   pt_ColFields (pivotTableDefinition exampleCollab 2 1 (exampleOptions\<lparr>Columns := []\<rparr>)
      [7, 2, 13, 34]) = None \<and>
   pt_ColFields (pivotTableDefinition exampleCollab 2 1 twoDataOptions [7, 2, 13, 34]) =
     Some \<lparr>cf_Count = 2, cf_Field = [\<lparr>fld_X = 2\<rparr>, \<lparr>fld_X = - 2\<rparr>]\<rparr>"
proof -
  have columns: "Columns twoDataOptions \<noteq> []" "length (Data twoDataOptions) = 2"
    "length (Data exampleOptions) = 1"
    by (simp_all add: twoDataOptions_def exampleOptions_def noOptions_def)
  have positions:
    "matchingPositions [''Month'', ''Year'', ''Type'', ''Sales'', ''Region'']
       (Columns twoDataOptions) = [2]"
    by (simp add: matchingPositions_def firstIndex_def twoDataOptions_def exampleOptions_def
        noOptions_def fieldNamed_def zeroPivotTableField_def)
  show ?thesis
    using column_field_synthesis [where c = exampleCollab and cacheID = 2 and pivotTableID = 1
        and coordinates = "[7, 2, 13, 34]" and opts = "twoDataOptions\<lparr>Columns := []\<rparr>"
        and orders = "[]"]
      column_field_synthesis [where c = exampleCollab and cacheID = 2 and pivotTableID = 1
        and coordinates = "[7, 2, 13, 34]" and opts = "exampleOptions\<lparr>Columns := []\<rparr>"
        and orders = "[]"]
      column_field_synthesis [where c = exampleCollab and cacheID = 2 and pivotTableID = 1
        and coordinates = "[7, 2, 13, 34]" and opts = twoDataOptions
        and orders = "[''Month'', ''Year'', ''Type'', ''Sales'', ''Region'']"]
    by (simp add: Let_def twoDataOrder columns positions)
qed

section \<open>The cache definition\<close>

lemma cacheFieldOf_itemized:
  "cacheFieldOf opts name =
     \<lparr>cfd_Name = name,
      cfd_SharedItems =
        (if itemized opts name then \<lparr>si_Count = 1, si_S = Some []\<rparr>
         else \<lparr>si_Count = 0, si_S = None\<rparr>)\<rparr>"
  by (simp add: cacheFieldOf_def itemized_def getPivotTableFieldOptions_def Let_def
      split: option.splits)

lemma pivotCacheDefinition_CacheField:
  "cfs_CacheField (pc_CacheFields (pivotCacheDefinition c opts dataSheet coordinates)) =
     map (cacheFieldOf opts) (fst (getPivotFieldsOrder c opts))"
  by (simp add: pivotCacheDefinition_def Let_def)

lemma pivotFieldOf_DefaultSubtotal_row:
  "declared name (Rows opts) \<Longrightarrow>
   pf_DefaultSubtotal (pivotFieldOf opts name) =
     Some (DefaultSubtotal (fst (getPivotTableFieldOptions name (Rows opts))))"
  by (simp add: pivotFieldOf_def inPivotTableField_declared Let_def split: prod.splits)

lemma pivotFieldOf_DefaultSubtotal_col:
  "\<not> declared name (Rows opts) \<Longrightarrow> \<not> declared name (Filter opts) \<Longrightarrow>
   declared name (Columns opts) \<Longrightarrow>
   pf_DefaultSubtotal (pivotFieldOf opts name) =
     Some (DefaultSubtotal (fst (getPivotTableFieldOptions name (Columns opts))))"
  by (simp add: pivotFieldOf_def inPivotTableField_declared Let_def split: prod.splits)

lemma find_undeclared:
  "\<not> declared name flds \<Longrightarrow> find (\<lambda>fld. PivotTableField.Data fld = name) flds = None"
  by (simp add: find_declared)

lemma find_declared_Some:
  "declared name flds \<Longrightarrow> \<exists>fld. find (\<lambda>fld. PivotTableField.Data fld = name) flds = Some fld"
  using find_declared [of name flds] by (cases "find (\<lambda>fld. PivotTableField.Data fld = name) flds") auto

lemma itemized_exclusive:
  assumes "declared name (Columns opts) \<longrightarrow>
             \<not> declared name (Rows opts) \<and> \<not> declared name (Filter opts)"
  shows "itemized opts name =
     ((pf_Axis (pivotFieldOf opts name) = ''axisRow'' \<or>
       pf_Axis (pivotFieldOf opts name) = ''axisCol'') \<and>
      pf_DefaultSubtotal (pivotFieldOf opts name) = Some False)"
proof (cases "declared name (Rows opts)")
  case True
  with assms have nc: "\<not> declared name (Columns opts)" by blast
  from True obtain r where r: "find (\<lambda>fld. PivotTableField.Data fld = name) (Rows opts) = Some r"
    using find_declared_Some by blast
  show ?thesis
    by (simp add: itemized_def r find_undeclared [OF nc] pivotFieldOf_axis True
        pivotFieldOf_DefaultSubtotal_row [OF True] getPivotTableFieldOptions_def)
next
  case nr: False
  show ?thesis
  proof (cases "declared name (Columns opts)")
    case True
    with assms have nf: "\<not> declared name (Filter opts)" by blast
    from True obtain r where
      r: "find (\<lambda>fld. PivotTableField.Data fld = name) (Columns opts) = Some r"
      using find_declared_Some by blast
    show ?thesis
      by (simp add: itemized_def r find_undeclared [OF nr] pivotFieldOf_axis nr nf True
          pivotFieldOf_DefaultSubtotal_col [OF nr nf True] getPivotTableFieldOptions_def)
  next
    case False
    show ?thesis
      by (simp add: itemized_def find_undeclared [OF nr] find_undeclared [OF False]
          pivotFieldOf_axis nr False)
  qed
qed

lemma pageColumnOrder:
  "getPivotFieldsOrder exampleCollab pageColumnOptions =
     ([''Month'', ''Year'', ''Type'', ''Sales'', ''Region''], None)"
  by code_simp

text \<open>
  C3, as the code has it. The cache definition holds one cache field for each name that
  the reading of the header row returned, in order. Its shared items have count 1 and the
  placeholder empty string exactly when the field is itemized: the Rows list declares the
  name with \<open>DefaultSubtotal\<close> false, or the Columns list does. The two lists are looked up
  on their own, whatever axis the precedence of the classifier gives the field; every
  other field has count 0 and no item. For a name that the Columns list does not share
  with the Rows or the Filter list, being itemized is being classified under Rows or
  Columns with the resolved \<open>DefaultSubtotal\<close> false.
\<close>

theorem shared_items_marker:
  "cfs_CacheField (pc_CacheFields (pivotCacheDefinition c opts dataSheet coordinates)) =
     map (\<lambda>name. \<lparr>cfd_Name = name,
                   cfd_SharedItems =
                     (if itemized opts name then \<lparr>si_Count = 1, si_S = Some []\<rparr>
                      else \<lparr>si_Count = 0, si_S = None\<rparr>)\<rparr>)
       (fst (getPivotFieldsOrder c opts)) \<and>
   ((declared name (Columns opts) \<longrightarrow>
       \<not> declared name (Rows opts) \<and> \<not> declared name (Filter opts)) \<longrightarrow>
    itemized opts name =
      ((pf_Axis (pivotFieldOf opts name) = ''axisRow'' \<or>
        pf_Axis (pivotFieldOf opts name) = ''axisCol'') \<and>
       pf_DefaultSubtotal (pivotFieldOf opts name) = Some False))"
  using itemized_exclusive [of name opts]
  by (simp add: pivotCacheDefinition_CacheField cacheFieldOf_itemized)

theorem shared_items_marker_witness:
  "map (si_Count \<circ> cfd_SharedItems)
     (cfs_CacheField (pc_CacheFields
        (pivotCacheDefinition exampleCollab exampleOptions ''Sheet1'' [1, 1, 5, 31]))) =
     [0, 1, 0, 0, 0] \<and>
   pf_Axis (pivotFieldOf exampleOptions ''Year'') = ''axisRow'' \<and>
   pf_DefaultSubtotal (pivotFieldOf exampleOptions ''Year'') = Some False"
proof -
  have items: "itemized exampleOptions ''Year''" "\<not> itemized exampleOptions ''Month''"
    "\<not> itemized exampleOptions ''Type''" "\<not> itemized exampleOptions ''Sales''"
    "\<not> itemized exampleOptions ''Region''"
    by (simp_all add: itemized_def exampleOptions_def noOptions_def fieldNamed_def
        zeroPivotTableField_def)
  have excl: "\<not> declared ''Year'' (Columns exampleOptions)"
    by (simp add: declared_def exampleOptions_def noOptions_def fieldNamed_def
        zeroPivotTableField_def)
  have axis: "pf_Axis (pivotFieldOf exampleOptions ''Year'') = ''axisRow''"
    by (simp add: pivotFieldOf_axis declared_def exampleOptions_def noOptions_def
        fieldNamed_def zeroPivotTableField_def)
  show ?thesis
    using shared_items_marker [of exampleCollab exampleOptions "''Sheet1''" "[1, 1, 5, 31]" "''Year''"]
    by (simp add: exampleOrder items excl axis)
qed

text \<open>
  C3, as the claim states it, fails on a field that the Filter and the Columns lists both
  declare: \<^verbatim>\<open>Region\<close>, at position 4 of the field order, is classified under Filter (the page
  axis), and its cache field has count 1.
\<close>

theorem shared_items_classified_counterexample:
  "pf_Axis (pfs_PivotField (pt_PivotFields
      (pivotTableDefinition exampleCollab 2 1 pageColumnOptions [7, 2, 13, 34])) ! 4) = ''axisPage'' \<and>
   si_Count (cfd_SharedItems (cfs_CacheField (pc_CacheFields
      (pivotCacheDefinition exampleCollab pageColumnOptions ''Sheet1'' [1, 1, 5, 31])) ! 4)) = 1"
proof -
  have axis: "pf_Axis (pivotFieldOf pageColumnOptions ''Region'') = ''axisPage''"
    by (simp add: pivotFieldOf_axis declared_def pageColumnOptions_def exampleOptions_def
        noOptions_def fieldNamed_def zeroPivotTableField_def)
  have item: "itemized pageColumnOptions ''Region''"
    by (simp add: itemized_def pageColumnOptions_def exampleOptions_def noOptions_def
        fieldNamed_def zeroPivotTableField_def)
  show ?thesis
    by (simp add: pivotTableDefinition_PivotField [OF pageColumnOrder]
        pivotCacheDefinition_CacheField pageColumnOrder cacheFieldOf_itemized axis item)
qed

section \<open>Aggregation functions\<close>


























section \<open>Validation before any write\<close>

lemma parse_nil:
  "parseFormatPivotTableSet c None = (None, [], Some ErrParameterRequired)"
  by (simp add: parseFormatPivotTableSet_def)

lemma parse_placement:
  assumes "adjustRange c (PivotTableRange opts) = (sheet, co, Some e)"
  shows "snd (snd (parseFormatPivotTableSet c (Some opts))) = Some (ParsingError ''PivotTableRange'' e)"
  using assms by (simp add: parseFormatPivotTableSet_def)

lemma parse_data:
  assumes "adjustRange c (PivotTableRange opts) = (sheet, co, None)"
    and "adjustRange c (dataRange_spec c opts sheet) = (dsheet, dco, Some e)"
  shows "snd (snd (parseFormatPivotTableSet c (Some opts))) = Some (ParsingError ''DataRange'' e)"
  using assms by (auto simp add: parseFormatPivotTableSet_def dataRange_spec_def Let_def split: if_splits prod.splits)

lemma parse_dataSheet:
  assumes "adjustRange c (PivotTableRange opts) = (sheet, co, None)"
    and "adjustRange c (dataRange_spec c opts sheet) = (dsheet, dco, None)"
    and "workSheetReader c dsheet = Some e"
  shows "snd (snd (parseFormatPivotTableSet c (Some opts))) = Some e"
  using assms by (auto simp add: parseFormatPivotTableSet_def dataRange_spec_def Let_def split: if_splits prod.splits)

lemma parse_placementSheet:
  assumes "adjustRange c (PivotTableRange opts) = (sheet, co, None)"
    and "adjustRange c (dataRange_spec c opts sheet) = (dsheet, dco, None)"
    and "workSheetReader c dsheet = None"
    and "\<not> snd (getSheetXMLPath c sheet)"
  shows "snd (snd (parseFormatPivotTableSet c (Some opts))) = Some (SheetNotExist sheet)"
  using assms by (auto simp add: parseFormatPivotTableSet_def dataRange_spec_def Let_def split: if_splits prod.splits)

lemma validation_stops:
  assumes "snd (snd (parseFormatPivotTableSet c opts)) = Some err"
  shows "AddPivotTable c opts f = (f, Some err)"
proof -
  obtain opts1 path where "parseFormatPivotTableSet c opts = (opts1, path, Some err)"
    using assms by (cases "parseFormatPivotTableSet c opts") auto
  then show ?thesis by (simp add: AddPivotTable_def split: option.splits)
qed

text \<open>
  C8. \<^verbatim>\<open>AddPivotTable\<close> validates before it builds or stores anything. When the options are
  nil, when the placement range does not parse, when the data range (after the resolution
  of a defined name) does not parse, when the data sheet cannot be read, or when the
  placement sheet has no storage path, and in general whenever
  \<^verbatim>\<open>parseFormatPivotTableSet\<close> returns an error, the call returns that error and the document
  it was given: no part stored, no relationship, no content type, no entry in the registry
  of pivot caches.
\<close>

theorem validation_error_leaves_document:
  "AddPivotTable c None f = (f, Some ErrParameterRequired) \<and>
   (adjustRange c (PivotTableRange opts) = (sheet, co, Some e) \<longrightarrow>
      AddPivotTable c (Some opts) f = (f, Some (ParsingError ''PivotTableRange'' e))) \<and>
   (adjustRange c (PivotTableRange opts) = (sheet, co, None) \<and>
    adjustRange c (dataRange_spec c opts sheet) = (dsheet, dco, Some e) \<longrightarrow>
      AddPivotTable c (Some opts) f = (f, Some (ParsingError ''DataRange'' e))) \<and>
   (adjustRange c (PivotTableRange opts) = (sheet, co, None) \<and>
    adjustRange c (dataRange_spec c opts sheet) = (dsheet, dco, None) \<and>
    workSheetReader c dsheet = Some e \<longrightarrow>
      AddPivotTable c (Some opts) f = (f, Some e)) \<and>
   (adjustRange c (PivotTableRange opts) = (sheet, co, None) \<and>
    adjustRange c (dataRange_spec c opts sheet) = (dsheet, dco, None) \<and>
    workSheetReader c dsheet = None \<and> \<not> snd (getSheetXMLPath c sheet) \<longrightarrow>
      AddPivotTable c (Some opts) f = (f, Some (SheetNotExist sheet))) \<and>
   (snd (snd (parseFormatPivotTableSet c opts')) = Some err \<longrightarrow>
      AddPivotTable c opts' f = (f, Some err))"
proof (intro conjI impI)
  show "AddPivotTable c None f = (f, Some ErrParameterRequired)"
    by (rule validation_stops) (simp add: parse_nil)
next
  assume "adjustRange c (PivotTableRange opts) = (sheet, co, Some e)"
  then show "AddPivotTable c (Some opts) f = (f, Some (ParsingError ''PivotTableRange'' e))"
    by (intro validation_stops parse_placement)
next
  assume "adjustRange c (PivotTableRange opts) = (sheet, co, None) \<and>
    adjustRange c (dataRange_spec c opts sheet) = (dsheet, dco, Some e)"
  then show "AddPivotTable c (Some opts) f = (f, Some (ParsingError ''DataRange'' e))"
    by (intro validation_stops parse_data [where sheet = sheet and co = co and dsheet = dsheet and dco = dco]) simp_all
next
  assume "adjustRange c (PivotTableRange opts) = (sheet, co, None) \<and>
    adjustRange c (dataRange_spec c opts sheet) = (dsheet, dco, None) \<and>
    workSheetReader c dsheet = Some e"
  then show "AddPivotTable c (Some opts) f = (f, Some e)"
    by (intro validation_stops parse_dataSheet [where sheet = sheet and co = co and dsheet = dsheet and dco = dco]) simp_all
next
  assume "adjustRange c (PivotTableRange opts) = (sheet, co, None) \<and>
    adjustRange c (dataRange_spec c opts sheet) = (dsheet, dco, None) \<and>
    workSheetReader c dsheet = None \<and> \<not> snd (getSheetXMLPath c sheet)"
  then show "AddPivotTable c (Some opts) f = (f, Some (SheetNotExist sheet))"
    by (intro validation_stops parse_placementSheet [where sheet = sheet and co = co and dsheet = dsheet and dco = dco]) simp_all
next
  assume "snd (snd (parseFormatPivotTableSet c opts')) = Some err"
  then show "AddPivotTable c opts' f = (f, Some err)" by (rule validation_stops)
qed

lemma badPlacement_range: "adjustRange exampleCollab (PivotTableRange badPlacement) = (''Sheet1'', [], Some ErrParameterInvalid)"
  by code_simp

lemma badData_placement: "adjustRange exampleCollab (PivotTableRange badData) = (''Sheet1'', [7,2,13,34], None)"
  by code_simp

lemma badData_range: "adjustRange exampleCollab (dataRange_spec exampleCollab badData ''Sheet1'') = (''Sheet1'', [], Some ErrParameterInvalid)"
  by code_simp

lemma missingDataSheet_range: "adjustRange exampleCollab (dataRange_spec exampleCollab missingDataSheet ''Sheet1'') = (''Sheet2'', [1,1,5,31], None)"
  by code_simp

lemma missingPlacementSheet_placement: "adjustRange exampleCollab (PivotTableRange missingPlacementSheet) = (''Sheet9'', [7,2,13,34], None)"
  by code_simp

lemma missingPlacementSheet_range: "adjustRange exampleCollab (dataRange_spec exampleCollab missingPlacementSheet ''Sheet9'') = (''Sheet1'', [1,1,5,31], None)"
  by code_simp

lemma example_changes_document: "fst (AddPivotTable exampleCollab (Some exampleOptions) exampleFile) \<noteq> exampleFile \<and> snd (AddPivotTable exampleCollab (Some exampleOptions) exampleFile) = None"
  by code_simp

lemma missingDataSheet_placement: "adjustRange exampleCollab (PivotTableRange missingDataSheet) = (''Sheet1'', [7,2,13,34], None)"
  by code_simp

lemma example_sheets: "workSheetReader exampleCollab ''Sheet2'' = Some (SheetNotExist ''Sheet2'') \<and>
   workSheetReader exampleCollab ''Sheet1'' = None \<and> \<not> snd (getSheetXMLPath exampleCollab ''Sheet9'')"
  by (simp add: exampleCollab_def)

theorem validation_error_leaves_document_witness:
  "AddPivotTable exampleCollab None exampleFile = (exampleFile, Some ErrParameterRequired) \<and>
   AddPivotTable exampleCollab (Some badPlacement) exampleFile =
     (exampleFile, Some (ParsingError ''PivotTableRange'' ErrParameterInvalid)) \<and>
   AddPivotTable exampleCollab (Some badData) exampleFile =
     (exampleFile, Some (ParsingError ''DataRange'' ErrParameterInvalid)) \<and>
   AddPivotTable exampleCollab (Some missingDataSheet) exampleFile =
     (exampleFile, Some (SheetNotExist ''Sheet2'')) \<and>
   AddPivotTable exampleCollab (Some missingPlacementSheet) exampleFile =
     (exampleFile, Some (SheetNotExist ''Sheet9'')) \<and>
   fst (AddPivotTable exampleCollab (Some exampleOptions) exampleFile) \<noteq> exampleFile \<and>
   snd (AddPivotTable exampleCollab (Some exampleOptions) exampleFile) = None"
proof -
  have p1: "AddPivotTable exampleCollab None exampleFile = (exampleFile, Some ErrParameterRequired)"
    using validation_error_leaves_document [of exampleCollab exampleFile] by blast
  have p2: "AddPivotTable exampleCollab (Some badPlacement) exampleFile =
      (exampleFile, Some (ParsingError ''PivotTableRange'' ErrParameterInvalid))"
    using validation_error_leaves_document [where c = exampleCollab and f = exampleFile
        and opts = badPlacement and sheet = "''Sheet1''" and co = "[]" and e = ErrParameterInvalid]
      badPlacement_range by blast
  have p3: "AddPivotTable exampleCollab (Some badData) exampleFile =
      (exampleFile, Some (ParsingError ''DataRange'' ErrParameterInvalid))"
    using validation_error_leaves_document [where c = exampleCollab and f = exampleFile
        and opts = badData and sheet = "''Sheet1''" and co = "[7,2,13,34]"
        and dsheet = "''Sheet1''" and dco = "[]" and e = ErrParameterInvalid]
      badData_placement badData_range by blast
  have p4: "AddPivotTable exampleCollab (Some missingDataSheet) exampleFile =
      (exampleFile, Some (SheetNotExist ''Sheet2''))"
    using validation_error_leaves_document [where c = exampleCollab and f = exampleFile
        and opts = missingDataSheet and sheet = "''Sheet1''" and co = "[7,2,13,34]"
        and dsheet = "''Sheet2''" and dco = "[1,1,5,31]" and e = "SheetNotExist ''Sheet2''"]
      missingDataSheet_placement missingDataSheet_range example_sheets by blast
  have p5: "AddPivotTable exampleCollab (Some missingPlacementSheet) exampleFile =
      (exampleFile, Some (SheetNotExist ''Sheet9''))"
    using validation_error_leaves_document [where c = exampleCollab and f = exampleFile
        and opts = missingPlacementSheet and sheet = "''Sheet9''" and co = "[7,2,13,34]"
        and dsheet = "''Sheet1''" and dco = "[1,1,5,31]"]
      missingPlacementSheet_placement missingPlacementSheet_range example_sheets by blast
  show ?thesis using p1 p2 p3 p4 p5 example_changes_document by simp
qed

section \<open>Sequence numbers and registry IDs\<close>

































end
